theory Spec2Isabelle
  imports Complex_Main
begin

section \<open>Strings\<close>

text \<open>
  A JavaScript string is a sequence of UTF-16 code units. A code unit is modelled as a
  natural number (below 65536 in every real string; nothing below depends on the bound),
  so that the character classes of the source's regular expressions, which mention code
  units beyond Latin-1, are what the source says. \<open>js\<close> turns a literal into code units.
\<close>

type_synonym ustring = "nat list"

definition js :: "string \<Rightarrow> ustring" where
  "js s = map of_char s"

text \<open>The class \<^verbatim>\<open>\s\<close> of ECMAScript (white space and line terminators); it is also the set
  that \<^verbatim>\<open>String.prototype.trim\<close> strips.\<close>

definition is_space :: "nat \<Rightarrow> bool" where
  "is_space c \<longleftrightarrow>
     (9 \<le> c \<and> c \<le> 13) \<or> c = 32 \<or> c = 160 \<or> c = 5760 \<or> (8192 \<le> c \<and> c \<le> 8202) \<or>
     c = 8232 \<or> c = 8233 \<or> c = 8239 \<or> c = 8287 \<or> c = 12288 \<or> c = 65279"

definition trim :: "ustring \<Rightarrow> ustring" where
  "trim s = rev (dropWhile is_space (rev (dropWhile is_space s)))"

section \<open>sanitizeFilename\<close>

text \<open>\<^verbatim>\<open>[<>:"/\\|?*]\<close>\<close>

definition forbidden :: "nat \<Rightarrow> bool" where
  "forbidden c \<longleftrightarrow> c \<in> {60, 62, 58, 34, 47, 92, 124, 63, 42}"

text \<open>\<^verbatim>\<open>[\u0000-\u001f\u007f-\u009f]\<close>\<close>

definition is_control :: "nat \<Rightarrow> bool" where
  "is_control c \<longleftrightarrow> c \<le> 31 \<or> (127 \<le> c \<and> c \<le> 159)"

text \<open>\<^verbatim>\<open>[^\x00-\x7F]\<close>\<close>

definition non_ascii :: "nat \<Rightarrow> bool" where
  "non_ascii c \<longleftrightarrow> 127 < c"

text \<open>\<^verbatim>\<open>s.replace(/[p]+/g, r)\<close>: every maximal run of code units of the class \<open>p\<close> becomes
  the single code unit \<open>r\<close>.\<close>

function replace_runs :: "(nat \<Rightarrow> bool) \<Rightarrow> nat \<Rightarrow> ustring \<Rightarrow> ustring" where
  "replace_runs p r [] = []"
| "replace_runs p r (c # cs) =
     (if p c then r # replace_runs p r (dropWhile p cs) else c # replace_runs p r cs)"
  by pat_completeness auto
termination
  by (relation "measure (\<lambda>(p, r, s). length s)") (auto simp: length_dropWhile_le less_Suc_eq_le)

text \<open>\<^verbatim>\<open>s.replace(/^_|_$/g, '')\<close>: one underscore at the very start and one at the very end
  are removed (there is no \<^verbatim>\<open>m\<close> flag, so the anchors are the ends of the string).\<close>

definition strip_edges :: "ustring \<Rightarrow> ustring" where
  "strip_edges s =
     (let s1 = (case s of [] \<Rightarrow> [] | c # cs \<Rightarrow> if c = 95 then cs else s)
      in if s1 \<noteq> [] \<and> last s1 = 95 then butlast s1 else s1)"

text \<open>The chain of replacements of the source, before the \<^verbatim>\<open>|| 'download'\<close>.\<close>

definition sanitize_chain :: "ustring \<Rightarrow> bool \<Rightarrow> ustring" where
  "sanitize_chain filename asciiOnly =
     (let result = filter (\<lambda>c. \<not> is_control c) (map (\<lambda>c. if forbidden c then 95 else c) filename);
          result = (if asciiOnly then filter (\<lambda>c. \<not> non_ascii c) result else result)
      in take 150 (trim (strip_edges
           (replace_runs (\<lambda>c. c = 95) 95 (replace_runs is_space 95 result)))))"

text \<open>The empty string is the only falsy string, so \<^verbatim>\<open>x || 'download'\<close> is the fallback
  exactly when the chain yields the empty string.\<close>

definition sanitizeFilename :: "ustring \<Rightarrow> bool \<Rightarrow> ustring" where
  "sanitizeFilename filename asciiOnly =
     (let r = sanitize_chain filename asciiOnly in if r = [] then js ''download'' else r)"

section \<open>Regular expressions\<close>

text \<open>
  The regular expressions of the source are sequences of character classes, each taken
  once, optionally (\<^verbatim>\<open>?\<close>) or any number of times (\<^verbatim>\<open>*\<close>); \<^verbatim>\<open>x+\<close> is \<^verbatim>\<open>xx*\<close>.
  \<open>match_here\<close> is the backtracking matcher of ECMAScript on such a sequence, anchored at
  the start of the string: quantifiers are greedy and give characters back only when the
  rest of the pattern fails. It returns the text matched by each item, in order, so that
  a capture group is the concatenation of the items it encloses. \<open>search\<close> is
  \<^verbatim>\<open>String.prototype.match\<close> without the \<^verbatim>\<open>g\<close> flag: the leftmost match.
\<close>

datatype item = One "nat \<Rightarrow> bool" | Opt "nat \<Rightarrow> bool" | Many "nat \<Rightarrow> bool"

fun match_here :: "item list \<Rightarrow> ustring \<Rightarrow> ustring list option" where
  "match_here [] s = Some []"
| "match_here (One p # r) [] = None"
| "match_here (One p # r) (c # cs) =
     (if p c then map_option (Cons [c]) (match_here r cs) else None)"
| "match_here (Opt p # r) [] = map_option (Cons []) (match_here r [])"
| "match_here (Opt p # r) (c # cs) =
     (case (if p c then match_here r cs else None) of
        Some ms \<Rightarrow> Some ([c] # ms)
      | None \<Rightarrow> map_option (Cons []) (match_here r (c # cs)))"
| "match_here (Many p # r) [] = map_option (Cons []) (match_here r [])"
| "match_here (Many p # r) (c # cs) =
     (case (if p c then match_here (Many p # r) cs else None) of
        Some (m # ms) \<Rightarrow> Some ((c # m) # ms)
      | _ \<Rightarrow> map_option (Cons []) (match_here r (c # cs)))"

fun search :: "item list \<Rightarrow> ustring \<Rightarrow> ustring list option" where
  "search r [] = match_here r []"
| "search r (c # cs) =
     (case match_here r (c # cs) of Some ms \<Rightarrow> Some ms | None \<Rightarrow> search r cs)"

text \<open>\<^verbatim>\<open>\d\<close>, a literal character, and a letter under the \<^verbatim>\<open>i\<close> flag (given by its upper
  case; without the \<^verbatim>\<open>u\<close> flag no code unit beyond ASCII folds onto an ASCII letter).\<close>

definition is_digit :: "nat \<Rightarrow> bool" where
  "is_digit c \<longleftrightarrow> 48 \<le> c \<and> c \<le> 57"

definition ch :: "nat \<Rightarrow> nat \<Rightarrow> bool" where
  "ch a c \<longleftrightarrow> c = a"

definition ci :: "nat \<Rightarrow> nat \<Rightarrow> bool" where
  "ci a c \<longleftrightarrow> c = a \<or> c = a + 32"

text \<open>The class \<^verbatim>\<open>.\<close>: every code unit but the line terminators.\<close>

definition not_newline :: "nat \<Rightarrow> bool" where
  "not_newline c \<longleftrightarrow> c \<notin> {10, 13, 8232, 8233}"

text \<open>\<^verbatim>\<open>/(\d+\.?\d*)%/\<close>; group 1 is the first four items.\<close>

definition re_progress :: "item list" where
  "re_progress = [One is_digit, Many is_digit, Opt (ch 46), Many is_digit, One (ch 37)]"

text \<open>\<^verbatim>\<open>/(\d+\.?\d*\s*[KMG]?i?B\/s)/i\<close>; group 1 is the whole match.\<close>

definition re_speed :: "item list" where
  "re_speed = [One is_digit, Many is_digit, Opt (ch 46), Many is_digit, Many is_space,
     Opt (\<lambda>c. ci 75 c \<or> ci 77 c \<or> ci 71 c), Opt (ci 73), One (ci 66), One (ch 47), One (ci 83)]"

text \<open>\<^verbatim>\<open>/ERROR:\s*(.+)/i\<close>; group 1 is what follows the first seven items.\<close>

definition re_error :: "item list" where
  "re_error = [One (ci 69), One (ci 82), One (ci 82), One (ci 79), One (ci 82), One (ch 58),
     Many is_space, One not_newline, Many not_newline]"

text \<open>\<^verbatim>\<open>s.includes(t)\<close> and \<^verbatim>\<open>s.endsWith(t)\<close>.\<close>

fun includes_str :: "ustring \<Rightarrow> ustring \<Rightarrow> bool" where
  "includes_str [] t = (t = [])"
| "includes_str (c # cs) t = (take (length t) (c # cs) = t \<or> includes_str cs t)"

definition endsWith :: "ustring \<Rightarrow> ustring \<Rightarrow> bool" where
  "endsWith s t \<longleftrightarrow> length t \<le> length s \<and> drop (length s - length t) s = t"

section \<open>Numbers and their text\<close>

text \<open>
  \<^verbatim>\<open>parseFloat\<close> is only ever applied to group 1 of \<open>re_progress\<close>: decimal digits, an
  optional point, decimal digits (lemma \<open>progress_capture_shape\<close> below). On such a
  string it returns the double nearest to the decimal value; the model keeps the decimal
  value itself, as a rational.
\<close>

definition digits_value :: "ustring \<Rightarrow> nat" where
  "digits_value ds = foldl (\<lambda>a c. 10 * a + (c - 48)) 0 ds"

definition parseFloat :: "ustring \<Rightarrow> rat" where
  "parseFloat s =
     (let ip = takeWhile is_digit s;
          fp = (case dropWhile is_digit s of [] \<Rightarrow> [] |
                  c # cs \<Rightarrow> if c = 46 then takeWhile is_digit cs else [])
      in of_nat (digits_value ip) + of_nat (digits_value fp) / 10 ^ length fp)"

text \<open>Decimal text of a natural number and of an integer (\<^verbatim>\<open>toString\<close>, template
  literals).\<close>

function show_nat :: "nat \<Rightarrow> ustring" where
  "show_nat n = (if n < 10 then [48 + n] else show_nat (n div 10) @ [48 + n mod 10])"
  by pat_completeness auto
termination
  by (relation "measure id") auto

definition show_int :: "int \<Rightarrow> ustring" where
  "show_int i = (if i < 0 then 45 # show_nat (nat (- i)) else show_nat (nat i))"

section \<open>The progress parser\<close>

text \<open>
  The progress bar is an object of the package \<^verbatim>\<open>cli-progress\<close>; the model records what
  the code passes to it: \<^verbatim>\<open>start(total, value, payload)\<close> and \<^verbatim>\<open>update(value, payload)\<close>
  store their arguments, \<^verbatim>\<open>stop()\<close> ends the display. A new bar has value 0, total 100
  and an empty payload.
\<close>

record bar =
  bar_active :: bool
  bar_total :: rat
  bar_value :: rat
  bar_speed :: ustring
  bar_status :: ustring

definition new_bar :: bar where
  "new_bar = \<lparr>bar_active = False, bar_total = 100, bar_value = 0, bar_speed = [], bar_status = []\<rparr>"

definition bar_start :: "rat \<Rightarrow> rat \<Rightarrow> ustring \<Rightarrow> ustring \<Rightarrow> bar \<Rightarrow> bar" where
  "bar_start tot v speed status b =
     b\<lparr>bar_active := True, bar_total := tot, bar_value := v, bar_speed := speed, bar_status := status\<rparr>"

definition bar_update :: "rat \<Rightarrow> ustring \<Rightarrow> ustring \<Rightarrow> bar \<Rightarrow> bar" where
  "bar_update v speed status b = b\<lparr>bar_value := v, bar_speed := speed, bar_status := status\<rparr>"

definition bar_stop :: "bar \<Rightarrow> bar" where
  "bar_stop b = b\<lparr>bar_active := False\<rparr>"

text \<open>The variables that \<^verbatim>\<open>updateProgress\<close> and the event handlers of
  \<^verbatim>\<open>downloadVideoWithProgress\<close> close over.\<close>

record progress =
  progressStarted :: bool
  errorOutput :: ustring
  currentStatus :: ustring
  progressBar :: bar

definition initial_progress :: progress where
  "initial_progress =
     \<lparr>progressStarted = False, errorOutput = [], currentStatus = js ''Starting...'',
      progressBar = new_bar\<rparr>"

definition detect_phase :: "ustring \<Rightarrow> ustring \<Rightarrow> ustring" where
  "detect_phase line current =
     (if includes_str line (js ''Downloading'') \<and> includes_str line (js ''video'')
        then js ''Downloading video...''
      else if includes_str line (js ''Downloading'') \<and> includes_str line (js ''audio'')
        then js ''Downloading audio...''
      else if includes_str line (js ''Merging'') then js ''Merging files...''
      else if includes_str line (js ''Extracting audio'') \<or> includes_str line (js ''Converting'')
        then js ''Converting to MP3...''
      else if includes_str line (js ''Deleting original'') then js ''Cleaning up...''
      else current)"

definition updateProgress :: "progress \<Rightarrow> ustring \<Rightarrow> progress" where
  "updateProgress st line =
     (let st1 = st\<lparr>currentStatus := detect_phase line (currentStatus st)\<rparr>;
          progressMatch = search re_progress line;
          speedMatch = search re_speed line
      in case progressMatch of
           None \<Rightarrow> st1
         | Some ms \<Rightarrow>
             let percent = parseFloat (concat (take 4 ms));
                 speed = (case speedMatch of Some sm \<Rightarrow> concat sm | None \<Rightarrow> js ''N/A'');
                 st2 = (if \<not> progressStarted st1
                        then st1\<lparr>progressBar :=
                                   bar_start 100 0 (js ''Starting...'') (currentStatus st1)
                                     (progressBar st1),
                                 progressStarted := True\<rparr>
                        else st1)
             in st2\<lparr>progressBar :=
                      bar_update percent speed (currentStatus st2) (progressBar st2)\<rparr>)"

text \<open>The subprocess's output arrives in chunks, on stdout or on stderr; stderr is also
  accumulated in \<open>errorOutput\<close>.\<close>

datatype chunk = Stdout ustring | Stderr ustring

fun on_data :: "progress \<Rightarrow> chunk \<Rightarrow> progress" where
  "on_data st (Stdout line) = updateProgress st line"
| "on_data st (Stderr line) = updateProgress (st\<lparr>errorOutput := errorOutput st @ line\<rparr>) line"

text \<open>
  The handlers of \<^verbatim>\<open>downloadVideo\<close> and \<^verbatim>\<open>downloadVideoSimple\<close> in \<^verbatim>\<open>src/index.js\<close>: the
  same percent pattern, the throughput taken by \<^verbatim>\<open>/at\s+([^\s]+)/\<close> (group 1 is what
  follows the first four items), no phase, and a payload with the speed only.
\<close>

definition re_speed_at :: "item list" where
  "re_speed_at = [One (ch 97), One (ch 116), One is_space, Many is_space,
     One (\<lambda>c. \<not> is_space c), Many (\<lambda>c. \<not> is_space c)]"

definition on_data_simple :: "progress \<Rightarrow> ustring \<Rightarrow> progress" where
  "on_data_simple st line =
     (let progressMatch = search re_progress line;
          speedMatch = search re_speed_at line
      in case progressMatch of
           None \<Rightarrow> st
         | Some ms \<Rightarrow>
             let percent = parseFloat (concat (take 4 ms));
                 speed = (case speedMatch of Some sm \<Rightarrow> concat (drop 4 sm) | None \<Rightarrow> js ''N/A'');
                 st2 = (if \<not> progressStarted st
                        then st\<lparr>progressBar :=
                                  (progressBar st)\<lparr>bar_active := True, bar_total := 100,
                                    bar_value := 0, bar_speed := js ''Starting...''\<rparr>,
                                progressStarted := True\<rparr>
                        else st)
             in st2\<lparr>progressBar := (progressBar st2)\<lparr>bar_value := percent, bar_speed := speed\<rparr>\<rparr>)"

section \<open>The file system\<close>

text \<open>
  A path is its list of components below the root, in normal form (no empty component,
  no \<^verbatim>\<open>.\<close>, no \<^verbatim>\<open>..\<close>). The file system is an association list from paths to nodes, a
  regular file with its content or a directory; the first entry of a path is the one in
  force. The root always exists. There are no permissions, links or open handles:
  within the model \<^verbatim>\<open>fs.rmSync(dir, {recursive: true, force: true})\<close> cannot throw.
\<close>

type_synonym path = "ustring list"

datatype node = File ustring | Dir

type_synonym fs = "(path \<times> node) list"

datatype errno = ENOENT | ENOTDIR | EISDIR | EEXIST | E2BIG

text \<open>What a \<^verbatim>\<open>throw\<close> or a rejected promise carries: a system error of \<^verbatim>\<open>fs\<close> or of
  \<^verbatim>\<open>spawn\<close>, or \<^verbatim>\<open>new Error(message)\<close>.\<close>

datatype error = SysError errno | Error ustring

definition lookup :: "fs \<Rightarrow> path \<Rightarrow> node option" where
  "lookup f p = map_of f p"

definition existsSync :: "fs \<Rightarrow> path \<Rightarrow> bool" where
  "existsSync f p \<longleftrightarrow> p = [] \<or> lookup f p \<noteq> None"

definition is_dir :: "fs \<Rightarrow> path \<Rightarrow> bool" where
  "is_dir f p \<longleftrightarrow> p = [] \<or> lookup f p = Some Dir"

text \<open>\<open>path_under d q\<close>: the path \<open>q\<close> is \<open>d\<close> itself or lies below it.\<close>

definition path_under :: "path \<Rightarrow> path \<Rightarrow> bool" where
  "path_under d q \<longleftrightarrow> take (length d) q = d"

text \<open>
  \<^verbatim>\<open>path.join(dir, s)\<close> for a directory in normal form and a text \<open>s\<close>: the text is cut at
  the separators (\<^verbatim>\<open>/\<close>, and \<^verbatim>\<open>\\<close> too on Windows), and the result is normalised: an
  empty segment and \<^verbatim>\<open>.\<close> are dropped, \<^verbatim>\<open>..\<close> steps to the parent, and the root is its
  own parent. For a name listed by \<^verbatim>\<open>readdirSync\<close> and for a literal file name, which are
  one component other than \<^verbatim>\<open>.\<close> and \<^verbatim>\<open>..\<close>, this is \<open>dir @ [name]\<close>.
\<close>

definition is_sep :: "bool \<Rightarrow> nat \<Rightarrow> bool" where
  "is_sep win c \<longleftrightarrow> c = 47 \<or> (win \<and> c = 92)"

fun segments :: "(nat \<Rightarrow> bool) \<Rightarrow> ustring \<Rightarrow> ustring list" where
  "segments p [] = [[]]"
| "segments p (c # cs) =
     (if p c then [] # segments p cs
      else (case segments p cs of [] \<Rightarrow> [[c]] | x # xs \<Rightarrow> (c # x) # xs))"

definition join_step :: "path \<Rightarrow> ustring \<Rightarrow> path" where
  "join_step dir seg =
     (if seg = [] \<or> seg = js ''.'' then dir
      else if seg = js ''..'' then butlast dir
      else dir @ [seg])"

definition path_join :: "bool \<Rightarrow> path \<Rightarrow> ustring \<Rightarrow> path" where
  "path_join win dir s = foldl join_step dir (segments (is_sep win) s)"

definition write_node :: "path \<Rightarrow> node \<Rightarrow> fs \<Rightarrow> fs" where
  "write_node p n f = (p, n) # filter (\<lambda>(q, _). q \<noteq> p) f"

text \<open>\<^verbatim>\<open>fs.mkdirSync(dir, {recursive: true})\<close>: every missing ancestor is created; a regular
  file on the way is an error.\<close>

fun mkdir_from :: "path \<Rightarrow> path \<Rightarrow> fs \<Rightarrow> error + fs" where
  "mkdir_from pre [] f = Inr f"
| "mkdir_from pre (x # xs) f =
     (case lookup f (pre @ [x]) of
        Some (File _) \<Rightarrow> Inl (SysError (if xs = [] then EEXIST else ENOTDIR))
      | Some Dir \<Rightarrow> mkdir_from (pre @ [x]) xs f
      | None \<Rightarrow> mkdir_from (pre @ [x]) xs (write_node (pre @ [x]) Dir f))"

definition mkdirSync :: "path \<Rightarrow> fs \<Rightarrow> error + fs" where
  "mkdirSync dir f = mkdir_from [] dir f"

definition ensureDir :: "path \<Rightarrow> fs \<Rightarrow> error + fs" where
  "ensureDir dir f = (if \<not> existsSync f dir then mkdirSync dir f else Inr f)"

definition readdirSync :: "path \<Rightarrow> fs \<Rightarrow> error + ustring list" where
  "readdirSync d f =
     (if is_dir f d then Inr (remdups (map (last \<circ> fst) (filter (\<lambda>(q, _). q \<noteq> [] \<and> butlast q = d) f)))
      else Inl (SysError (if existsSync f d then ENOTDIR else ENOENT)))"

definition copyFileSync :: "path \<Rightarrow> path \<Rightarrow> fs \<Rightarrow> error + fs" where
  "copyFileSync src dest f =
     (case lookup f src of
        None \<Rightarrow> Inl (SysError ENOENT)
      | Some Dir \<Rightarrow> Inl (SysError EISDIR)
      | Some (File c) \<Rightarrow>
          if dest = [] \<or> lookup f dest = Some Dir then Inl (SysError EISDIR)
          else if \<not> is_dir f (butlast dest) then Inl (SysError ENOENT)
          else Inr (write_node dest (File c) f))"

definition rmSync :: "path \<Rightarrow> fs \<Rightarrow> fs" where
  "rmSync d f = filter (\<lambda>(q, _). \<not> path_under d q) f"

text \<open>A path as the text that goes into an argument vector.\<close>

definition path_str :: "path \<Rightarrow> ustring" where
  "path_str p = concat (map (\<lambda>c. 47 # c) p)"

section \<open>The world and the subprocess\<close>

text \<open>
  The world is the file system and the clock (\<^verbatim>\<open>Date.now()\<close>). The module's mutable
  globals and the platform are the configuration. \<^verbatim>\<open>spawn('yt-dlp', args, {shell: true})\<close>
  is a parameter of the model: given the argument vector and the world, either the call
  itself throws (\<open>Thrown\<close>: Node throws synchronously when it refuses the arguments or
  when the system call fails with anything but \<^verbatim>\<open>EACCES\<close>, \<^verbatim>\<open>EAGAIN\<close>, \<^verbatim>\<open>EMFILE\<close>,
  \<^verbatim>\<open>ENFILE\<close> or \<^verbatim>\<open>ENOENT\<close>, for instance with \<^verbatim>\<open>E2BIG\<close> on a command line beyond the
  system's limit), or the subprocess produces chunks of output and ends with a \<^verbatim>\<open>close\<close>
  event that carries the exit code (\<open>None\<close> when a signal ended it) or with an \<^verbatim>\<open>error\<close>
  event. \<open>r_after\<close> is the world when the subprocess has ended, or when the call has
  thrown. Nothing is assumed of the parameter. (When Node emits \<^verbatim>\<open>close\<close> after
  \<^verbatim>\<open>error\<close>, the second handler deletes an already deleted directory and rejects an
  already rejected promise.)
\<close>

record world =
  fsys :: fs
  now :: nat

record config =
  tempDir :: path
  downloadDir :: path
  cookiesFile :: "path option"
  win32 :: bool

datatype terminal = Closed "int option" | SpawnError error | Thrown error

record run =
  r_output :: "chunk list"
  r_terminal :: terminal
  r_after :: world

type_synonym spawner = "ustring list \<Rightarrow> world \<Rightarrow> run"

definition stdout_text :: "chunk list \<Rightarrow> ustring" where
  "stdout_text cs = concat (map (\<lambda>c. case c of Stdout t \<Rightarrow> t | Stderr _ \<Rightarrow> []) cs)"

definition stderr_text :: "chunk list \<Rightarrow> ustring" where
  "stderr_text cs = concat (map (\<lambda>c. case c of Stderr t \<Rightarrow> t | Stdout _ \<Rightarrow> []) cs)"

text \<open>\<^verbatim>\<open>if (cookiesFile && fs.existsSync(cookiesFile)) args.push('--cookies', cookiesFile)\<close>;
  \<open>None\<close> is \<^verbatim>\<open>null\<close> or the empty string.\<close>

definition cookie_args :: "config \<Rightarrow> world \<Rightarrow> ustring list" where
  "cookie_args cfg w =
     (case cookiesFile cfg of
        None \<Rightarrow> []
      | Some c \<Rightarrow> if existsSync (fsys w) c then [js ''--cookies'', path_str c] else [])"

section \<open>getVideoInfo\<close>

text \<open>
  One attempt: the promise around the subprocess. \<^verbatim>\<open>JSON.parse\<close> is a parameter, \<open>None\<close>
  when it throws. \<^verbatim>\<open>spawn\<close> is called in the executor of the promise, so its throwing
  rejects the promise.
\<close>

definition info_attempt :: "(ustring \<Rightarrow> 'j option) \<Rightarrow> run \<Rightarrow> error + 'j" where
  "info_attempt parse r =
     (case r_terminal r of
        Thrown err \<Rightarrow> Inl err
      | SpawnError err \<Rightarrow> Inl err
      | Closed code \<Rightarrow>
          if code = Some 0 \<and> stdout_text (r_output r) \<noteq> [] then
            (case parse (stdout_text (r_output r)) of
               Some info \<Rightarrow> Inr info
             | None \<Rightarrow> Inl (Error (js ''Failed to parse video info'')))
          else Inl (Error (if stderr_text (r_output r) \<noteq> [] then stderr_text (r_output r)
                           else js ''Failed to fetch video info'')))"

text \<open>
  The loop over \<open>attempts\<close>. The result is \<open>None\<close> when the loop ends without returning or
  throwing (an empty list of attempts: the function returns \<^verbatim>\<open>undefined\<close>). The second
  component lists the argument vectors that were spawned, in order.
\<close>

fun try_attempts ::
  "spawner \<Rightarrow> (ustring \<Rightarrow> 'j option) \<Rightarrow> ustring list list \<Rightarrow> world \<Rightarrow>
     (error + 'j) option \<times> ustring list list \<times> world" where
  "try_attempts sp parse [] w = (None, [], w)"
| "try_attempts sp parse (args # rest) w =
     (let r = sp args w in
      case info_attempt parse r of
        Inr info \<Rightarrow> (Some (Inr info), [args], r_after r)
      | Inl err \<Rightarrow>
          if rest \<noteq> [] then
            (case try_attempts sp parse rest (r_after r) of
               (res, spawned, w') \<Rightarrow> (res, args # spawned, w'))
          else (Some (Inl err), [args], r_after r))"

text \<open>The array \<open>attempts\<close>.\<close>

definition info_attempts :: "config \<Rightarrow> ustring \<Rightarrow> world \<Rightarrow> ustring list list" where
  "info_attempts cfg url w =
     (let baseArgs = [js ''--dump-json'', js ''--no-playlist''] @ cookie_args cfg w
      in [baseArgs @ [url],
          baseArgs @ [js ''--extractor-args'', js ''youtube:player_client=tv'', url]])"

definition getVideoInfo ::
  "config \<Rightarrow> spawner \<Rightarrow> (ustring \<Rightarrow> 'j option) \<Rightarrow> ustring \<Rightarrow> world \<Rightarrow>
     (error + 'j) option \<times> ustring list list \<times> world" where
  "getVideoInfo cfg sp parse url w = try_attempts sp parse (info_attempts cfg url w) w"

section \<open>downloadVideoWithProgress\<close>

record options =
  format :: ustring
  quality :: ustring
  outputDir :: path
  videoId :: "ustring option"

datatype outcome = Resolved path | Rejected error

text \<open>\<^verbatim>\<open>path.join(tempDir, videoId || Date.now().toString())\<close>.\<close>

definition downloadTempDir :: "config \<Rightarrow> options \<Rightarrow> world \<Rightarrow> path" where
  "downloadTempDir cfg opts w =
     path_join (win32 cfg) (tempDir cfg)
       (case videoId opts of
          None \<Rightarrow> show_nat (now w)
        | Some v \<Rightarrow> if v = [] then show_nat (now w) else v)"

definition ext_of :: "ustring \<Rightarrow> ustring" where
  "ext_of fmt = (if fmt = js ''audio'' then js ''mp3'' else js ''mp4'')"

definition build_args :: "config \<Rightarrow> ustring \<Rightarrow> options \<Rightarrow> world \<Rightarrow> ustring list" where
  "build_args cfg url opts w =
     (let outputTemplate = path_str (downloadTempDir cfg opts w @ [js ''%(title).100s.%(ext)s''])
      in [js ''--no-playlist'', js ''-o'', [34] @ outputTemplate @ [34],
          js ''--restrict-filenames'', js ''--newline'', js ''--no-warnings'', js ''--progress'']
         @ cookie_args cfg w
         @ (if format opts = js ''audio'' then
              [js ''-x'', js ''--audio-format'', js ''mp3'', js ''--audio-quality'', js ''0'']
            else if format opts = js ''video'' then
              [js ''-f'', js ''bestvideo[ext=mp4]/bestvideo'', js ''--merge-output-format'', js ''mp4'']
            else
              (if quality opts = js ''highest'' then
                 [js ''-f'', js ''bestvideo[ext=mp4]+bestaudio[ext=m4a]/best[ext=mp4]/best'']
               else
                 [js ''-f'', js ''worstvideo[ext=mp4]+worstaudio[ext=m4a]/worst[ext=mp4]/worst''])
              @ [js ''--merge-output-format'', js ''mp4''])
         @ [url])"

text \<open>The \<^verbatim>\<open>close\<close> handler first completes and stops a started bar. The bar is local
  to the call and has no part in its outcome.\<close>

definition close_progress :: "progress \<Rightarrow> progress" where
  "close_progress st =
     (if progressStarted st
      then st\<lparr>progressBar := bar_stop (bar_update 100 (js ''Done'') (js ''Complete!'') (progressBar st))\<rparr>
      else st)"

text \<open>The \<^verbatim>\<open>for\<close> loop over \<open>targetFiles\<close>; a failing copy leaves the earlier copies in
  place and throws.\<close>

fun copy_files :: "path \<Rightarrow> path \<Rightarrow> ustring list \<Rightarrow> fs \<Rightarrow> error option \<times> fs" where
  "copy_files tmp out [] f = (None, f)"
| "copy_files tmp out (file # files) f =
     (case copyFileSync (tmp @ [file]) (out @ [file]) f of
        Inl e \<Rightarrow> (Some e, f)
      | Inr f' \<Rightarrow> copy_files tmp out files f')"

definition show_code :: "int option \<Rightarrow> ustring" where
  "show_code code = (case code of None \<Rightarrow> js ''null'' | Some i \<Rightarrow> show_int i)"

definition error_message :: "ustring \<Rightarrow> int option \<Rightarrow> ustring" where
  "error_message errOut code =
     (case search re_error errOut of
        Some ms \<Rightarrow> trim (concat (drop 7 ms))
      | None \<Rightarrow> js ''Download failed with code '' @ show_code code)"

text \<open>The \<^verbatim>\<open>close\<close> handler, on the file system as it is when the event arrives.\<close>

definition on_close ::
  "path \<Rightarrow> path \<Rightarrow> ustring \<Rightarrow> ustring \<Rightarrow> int option \<Rightarrow> fs \<Rightarrow> outcome \<times> fs" where
  "on_close downloadTemp out ext errOut code f =
     (if code = Some 0 then
        (case readdirSync downloadTemp f of
           Inl moveErr \<Rightarrow> (Resolved downloadTemp, f)
         | Inr files \<Rightarrow>
             (case copy_files downloadTemp out (filter (\<lambda>n. endsWith n ([46] @ ext)) files) f of
                (Some moveErr, f') \<Rightarrow> (Resolved downloadTemp, f')
              | (None, f') \<Rightarrow> (Resolved out, rmSync downloadTemp f')))
      else (Rejected (Error (error_message errOut code)), rmSync downloadTemp f))"

text \<open>The \<^verbatim>\<open>error\<close> handler.\<close>

definition on_error :: "path \<Rightarrow> error \<Rightarrow> fs \<Rightarrow> outcome \<times> fs" where
  "on_error downloadTemp err f = (Rejected err, rmSync downloadTemp f)"

text \<open>
  The whole function. Both handlers are registered after \<^verbatim>\<open>spawn\<close> has returned, in the
  executor of the promise: when \<^verbatim>\<open>spawn\<close> throws, the promise is rejected with what was
  thrown and no handler ever runs.
\<close>

definition downloadVideoWithProgress ::
  "config \<Rightarrow> spawner \<Rightarrow> ustring \<Rightarrow> options \<Rightarrow> world \<Rightarrow> outcome \<times> world" where
  "downloadVideoWithProgress cfg sp url opts w =
     (let downloadTemp = downloadTempDir cfg opts w in
      case ensureDir downloadTemp (fsys w) of
        Inl e \<Rightarrow> (Rejected e, w)
      | Inr f1 \<Rightarrow>
          (case ensureDir (outputDir opts) f1 of
             Inl e \<Rightarrow> (Rejected e, w\<lparr>fsys := f1\<rparr>)
           | Inr f2 \<Rightarrow>
               let r = sp (build_args cfg url opts (w\<lparr>fsys := f2\<rparr>)) (w\<lparr>fsys := f2\<rparr>);
                   st = foldl on_data initial_progress (r_output r);
                   (res, f3) =
                     (case r_terminal r of
                        Thrown err \<Rightarrow> (Rejected err, fsys (r_after r))
                      | Closed code \<Rightarrow>
                          on_close downloadTemp (outputDir opts) (ext_of (format opts))
                            (errorOutput st) code (fsys (r_after r))
                      | SpawnError err \<Rightarrow> on_error downloadTemp err (fsys (r_after r)))
               in (res, (r_after r)\<lparr>fsys := f3\<rparr>)))"

text \<open>The argument vector of \<^verbatim>\<open>downloadVideoSimple\<close> in \<^verbatim>\<open>src/index.js\<close>, which writes
  into the target directory itself and reads neither the clock nor the file system.\<close>

definition build_args_simple :: "path \<Rightarrow> ustring \<Rightarrow> ustring \<Rightarrow> ustring \<Rightarrow> ustring list" where
  "build_args_simple targetDir url fmt qual =
     (let outputTemplate = path_str (targetDir @ [js ''%(title).150s.%(ext)s''])
      in [js ''--no-playlist'', js ''-o'', [34] @ outputTemplate @ [34],
          js ''--restrict-filenames'', js ''--progress'', js ''--newline'', js ''--no-warnings'']
         @ (if fmt = js ''audio'' then
              [js ''-x'', js ''--audio-format'', js ''mp3'', js ''--audio-quality'', js ''0'']
            else if fmt = js ''video'' then
              [js ''-f'', js ''bestvideo[ext=mp4]/bestvideo'']
            else if qual = js ''highest'' then
              [js ''-f'', js ''bestvideo[ext=mp4]+bestaudio[ext=m4a]/best[ext=mp4]/best'']
            else if qual = js ''lowest'' then
              [js ''-f'', js ''worstvideo[ext=mp4]+worstaudio[ext=m4a]/worst[ext=mp4]/worst'']
            else
              [js ''-f'', js ''bestvideo[ext=mp4]+bestaudio[ext=m4a]/best[ext=mp4]/best''])
         @ [url])"

section \<open>downloadPlaylist: selection by range\<close>

datatype number = NaN | Num int

text \<open>\<^verbatim>\<open>s.split(sep)\<close> for a separator of one code unit.\<close>

fun split_str :: "nat \<Rightarrow> ustring \<Rightarrow> ustring list" where
  "split_str sep [] = [[]]"
| "split_str sep (c # cs) =
     (if c = sep then [] # split_str sep cs
      else (case split_str sep cs of [] \<Rightarrow> [[c]] | x # xs \<Rightarrow> (c # x) # xs))"

definition is_hex :: "nat \<Rightarrow> bool" where
  "is_hex c \<longleftrightarrow> is_digit c \<or> (65 \<le> c \<and> c \<le> 70) \<or> (97 \<le> c \<and> c \<le> 102)"

definition hex_value :: "ustring \<Rightarrow> nat" where
  "hex_value ds =
     foldl (\<lambda>a c. 16 * a + (if is_digit c then c - 48 else if c \<le> 70 then c - 55 else c - 87)) 0 ds"

text \<open>\<^verbatim>\<open>parseInt(s)\<close> without a radix: leading white space, a sign, then hexadecimal
  digits after \<^verbatim>\<open>0x\<close> or decimal digits; what follows the digits is ignored; no digit
  gives \<^verbatim>\<open>NaN\<close>. (The result is a double; beyond \<open>2^53\<close> it is rounded, which no use
  below can tell from the exact value: every such index is out of range.)\<close>

definition parseInt :: "ustring \<Rightarrow> number" where
  "parseInt s =
     (let t = dropWhile is_space s;
          neg = (case t of [] \<Rightarrow> False | c # _ \<Rightarrow> c = 45);
          u = (case t of [] \<Rightarrow> [] | c # cs \<Rightarrow> if c = 45 \<or> c = 43 then cs else t);
          hex = (case u of a # b # _ \<Rightarrow> a = 48 \<and> (b = 120 \<or> b = 88) | _ \<Rightarrow> False);
          ds = (if hex then takeWhile is_hex (drop 2 u) else takeWhile is_digit u);
          v = int (if hex then hex_value ds else digits_value ds)
      in if ds = [] then NaN else Num (if neg then - v else v))"

definition minus_one :: "number \<Rightarrow> number" where
  "minus_one x = (case x of NaN \<Rightarrow> NaN | Num i \<Rightarrow> Num (i - 1))"

text \<open>\<^verbatim>\<open>Array.prototype.slice(start, end)\<close>: \<^verbatim>\<open>NaN\<close> counts as 0, a negative index counts
  from the end, both are clamped to the length; \<open>None\<close> is \<^verbatim>\<open>undefined\<close>.\<close>

definition rel_index :: "number \<Rightarrow> nat \<Rightarrow> nat" where
  "rel_index x len =
     (case x of
        NaN \<Rightarrow> 0
      | Num i \<Rightarrow> if i < 0 then nat (max (int len + i) 0) else min (nat i) len)"

definition slice :: "'a list \<Rightarrow> number \<Rightarrow> number option \<Rightarrow> 'a list" where
  "slice xs start fin =
     (let k = rel_index start (length xs);
          e = (case fin of None \<Rightarrow> length xs | Some x \<Rightarrow> rel_index x (length xs))
      in take (e - k) (drop k xs))"

text \<open>\<^verbatim>\<open>items[i]\<close>: \<^verbatim>\<open>undefined\<close> unless \<open>i\<close> is an index of the array.\<close>

definition item_at :: "'a list \<Rightarrow> number \<Rightarrow> 'a option" where
  "item_at xs x =
     (case x of
        NaN \<Rightarrow> None
      | Num i \<Rightarrow> if 0 \<le> i \<and> i < int (length xs) then Some (xs ! nat i) else None)"

text \<open>The branch \<^verbatim>\<open>selectOption === 'range'\<close>. The destructuring \<^verbatim>\<open>[start, end]\<close> takes
  the first two parts; a missing part is \<^verbatim>\<open>undefined\<close>, and \<^verbatim>\<open>undefined - 1\<close> is
  \<^verbatim>\<open>NaN\<close>. The entries are objects, so \<^verbatim>\<open>filter(Boolean)\<close> drops exactly the
  \<^verbatim>\<open>undefined\<close> ones.\<close>

definition select_range :: "ustring \<Rightarrow> 'a list \<Rightarrow> 'a list" where
  "select_range rangeInput items =
     (if includes_str rangeInput (js ''-'') then
        (let parts = map (\<lambda>n. parseInt (trim n)) (split_str 45 rangeInput);
             start = (case parts of [] \<Rightarrow> NaN | a # _ \<Rightarrow> minus_one a);
             fin = (case parts of _ # b # _ \<Rightarrow> Some b | _ \<Rightarrow> None)
         in slice items start fin)
      else
        (let indices = map (\<lambda>n. minus_one (parseInt (trim n))) (split_str 44 rangeInput)
         in List.map_filter (item_at items) indices))"

section \<open>downloadPlaylist: the batch loop\<close>

record video =
  v_title :: ustring
  v_url :: ustring
  v_duration :: "nat option"
  v_id :: ustring

text \<open>The loop's variables; \<open>announced\<close> is the console: the entries whose
  \<^verbatim>\<open>[i/n] title\<close> line has been printed, in order.\<close>

record batch =
  successful :: nat
  failed :: nat
  announced :: "video list"
  b_world :: world

definition entry_options :: "ustring \<Rightarrow> ustring \<Rightarrow> path \<Rightarrow> video \<Rightarrow> options" where
  "entry_options fmt qual playlistFolder v =
     \<lparr>format = fmt, quality = qual, outputDir = playlistFolder, videoId = Some (v_id v)\<rparr>"

definition batch_step ::
  "config \<Rightarrow> spawner \<Rightarrow> ustring \<Rightarrow> ustring \<Rightarrow> path \<Rightarrow> batch \<Rightarrow> video \<Rightarrow> batch" where
  "batch_step cfg sp fmt qual playlistFolder b v =
     (case downloadVideoWithProgress cfg sp (v_url v) (entry_options fmt qual playlistFolder v)
             (b_world b) of
        (Resolved _, w') \<Rightarrow>
          b\<lparr>successful := successful b + 1, announced := announced b @ [v], b_world := w'\<rparr>
      | (Rejected _, w') \<Rightarrow>
          b\<lparr>failed := failed b + 1, announced := announced b @ [v], b_world := w'\<rparr>)"

definition download_selected ::
  "config \<Rightarrow> spawner \<Rightarrow> ustring \<Rightarrow> ustring \<Rightarrow> path \<Rightarrow> video list \<Rightarrow> world \<Rightarrow> batch" where
  "download_selected cfg sp fmt qual playlistFolder selectedVideos w =
     foldl (batch_step cfg sp fmt qual playlistFolder)
       \<lparr>successful = 0, failed = 0, announced = [], b_world = w\<rparr> selectedVideos"

section \<open>Notions for stating the properties\<close>

text \<open>The run of the subprocess of \<open>downloadVideoWithProgress\<close>, when the function gets as
  far as spawning it (both \<open>ensureDir\<close> calls succeed): the same computation as in
  \<open>downloadVideoWithProgress\<close>, stopped after \<^verbatim>\<open>spawn\<close>.\<close>

definition spawned_run :: "config \<Rightarrow> spawner \<Rightarrow> ustring \<Rightarrow> options \<Rightarrow> world \<Rightarrow> run option" where
  "spawned_run cfg sp url opts w =
     (case ensureDir (downloadTempDir cfg opts w) (fsys w) of
        Inl _ \<Rightarrow> None
      | Inr f1 \<Rightarrow>
          (case ensureDir (outputDir opts) f1 of
             Inl _ \<Rightarrow> None
           | Inr f2 \<Rightarrow> Some (sp (build_args cfg url opts (w\<lparr>fsys := f2\<rparr>)) (w\<lparr>fsys := f2\<rparr>))))"

text \<open>What an item of a regular expression can have matched.\<close>

fun item_ok :: "item \<Rightarrow> ustring \<Rightarrow> bool" where
  "item_ok (One p) m = (length m = 1 \<and> list_all p m)"
| "item_ok (Opt p) m = (length m \<le> 1 \<and> list_all p m)"
| "item_ok (Many p) m = list_all p m"

section \<open>Example inputs\<close>

text \<open>A configuration without a cookies file, a request for the video \<^verbatim>\<open>v1\<close>, and a world
  whose download directory already holds a directory named \<^verbatim>\<open>a.mp4\<close>.\<close>

definition demo_config :: config where
  "demo_config =
     \<lparr>tempDir = [js ''tmp''], downloadDir = [js ''dl''], cookiesFile = None, win32 = False\<rparr>"

definition demo_options :: options where
  "demo_options = \<lparr>format = js ''both'', quality = js ''highest'', outputDir = [js ''dl''],
     videoId = Some (js ''v1'')\<rparr>"

definition demo_world :: world where
  "demo_world = \<lparr>fsys = [([js ''dl''], Dir), ([js ''dl'', js ''a.mp4''], Dir)], now = 0\<rparr>"

text \<open>Subprocesses: one that answers the first attempt of \<open>getVideoInfo\<close> and the second
  (the one with \<^verbatim>\<open>--extractor-args\<close>) as told; one that writes a file and ends as told; one
  that exits with 1 on one URL and with 0 on every other; and a \<^verbatim>\<open>spawn\<close> that throws
  \<^verbatim>\<open>E2BIG\<close> and leaves the world as it is.\<close>

definition throwing :: spawner where
  "throwing args w = \<lparr>r_output = [], r_terminal = Thrown (SysError E2BIG), r_after = w\<rparr>"

definition scripted :: "chunk list \<times> terminal \<Rightarrow> chunk list \<times> terminal \<Rightarrow> spawner" where
  "scripted first other args w =
     (case (if js ''--extractor-args'' \<in> set args then other else first) of
        (out, t) \<Rightarrow> \<lparr>r_output = out, r_terminal = t, r_after = w\<rparr>)"

definition writing :: "path \<Rightarrow> chunk list \<Rightarrow> terminal \<Rightarrow> spawner" where
  "writing p out t args w =
     \<lparr>r_output = out, r_terminal = t,
      r_after = w\<lparr>fsys := write_node p (File (js ''data'')) (fsys w)\<rparr>\<rparr>"

definition failing_on :: "ustring \<Rightarrow> spawner" where
  "failing_on u args w =
     \<lparr>r_output = [], r_terminal = Closed (Some (if last args = u then 1 else 0)), r_after = w\<rparr>"

text \<open>A playlist entry named after a number.\<close>

definition demo_video :: "ustring \<Rightarrow> video" where
  "demo_video n = \<lparr>v_title = n, v_url = js ''u'' @ n, v_duration = None, v_id = js ''v'' @ n\<rparr>"

section \<open>Properties of sanitizeFilename\<close>

lemma set_replace_runs: "set (replace_runs p r s) \<subseteq> insert r {c \<in> set s. \<not> p c}"
proof (induction p r s rule: replace_runs.induct)
  case (1 p r)
  show ?case by simp
next
  case (2 p r c cs)
  show ?case
  proof (cases "p c")
    case True
    have "set (dropWhile p cs) \<subseteq> set cs" by (auto dest: set_dropWhileD)
    with True 2 show ?thesis by auto
  next
    case False
    with 2 show ?thesis by auto
  qed
qed

lemma set_strip_edges: "set (strip_edges s) \<subseteq> set s"
  by (auto simp: strip_edges_def Let_def split: list.splits if_splits dest: in_set_butlastD)

lemma set_trim: "set (trim s) \<subseteq> set s"
proof
  fix x assume "x \<in> set (trim s)"
  then have "x \<in> set (dropWhile is_space (rev (dropWhile is_space s)))"
    by (simp add: trim_def)
  then have "x \<in> set (rev (dropWhile is_space s))" by (rule set_dropWhileD)
  then have "x \<in> set (dropWhile is_space s)" by simp
  then show "x \<in> set s" by (rule set_dropWhileD)
qed

lemma sanitize_chain_clean:
  assumes "c \<in> set (sanitize_chain s a)"
  shows "\<not> forbidden c \<and> \<not> is_space c"
proof -
  define r0 where "r0 = filter (\<lambda>c. \<not> is_control c) (map (\<lambda>c. if forbidden c then 95 else c) s)"
  define r1 where "r1 = (if a then filter (\<lambda>c. \<not> non_ascii c) r0 else r0)"
  have f0: "\<not> forbidden x" if "x \<in> set r0" for x
    using that by (auto simp: r0_def forbidden_def split: if_splits)
  have f1: "\<not> forbidden x" if "x \<in> set r1" for x
    using that f0 by (auto simp: r1_def split: if_splits)
  have u: "\<not> forbidden 95 \<and> \<not> is_space 95"
    by (simp add: forbidden_def is_space_def)
  have "sanitize_chain s a =
      take 150 (trim (strip_edges (replace_runs (\<lambda>c. c = 95) 95 (replace_runs is_space 95 r1))))"
    by (simp add: sanitize_chain_def Let_def r0_def r1_def)
  with assms have "c \<in> set (trim (strip_edges
      (replace_runs (\<lambda>c. c = 95) 95 (replace_runs is_space 95 r1))))"
    by (auto dest: in_set_takeD)
  then have "c \<in> set (strip_edges (replace_runs (\<lambda>c. c = 95) 95 (replace_runs is_space 95 r1)))"
    using set_trim by blast
  then have "c \<in> set (replace_runs (\<lambda>c. c = 95) 95 (replace_runs is_space 95 r1))"
    using set_strip_edges by blast
  then have "c = 95 \<or> c \<in> set (replace_runs is_space 95 r1)"
    using set_replace_runs [of "\<lambda>c. c = 95" 95 "replace_runs is_space 95 r1"] by auto
  then have "c = 95 \<or> (c \<in> set r1 \<and> \<not> is_space c)"
    using set_replace_runs [of is_space 95 r1] by auto
  with f1 u show ?thesis by auto
qed

text \<open>
  C10. For every input string and either value of \<open>asciiOnly\<close>, \<open>sanitizeFilename\<close>
  returns a non-empty string of at most 150 code units that contains none of the
  characters \<^verbatim>\<open>< > : " / \ | ? *\<close> and no white space; when the chain of replacements
  yields the empty string, the result is the literal \<^verbatim>\<open>download\<close>.
\<close>

theorem sanitizeFilename_safe:
  "sanitizeFilename s a \<noteq> [] \<and>
   length (sanitizeFilename s a) \<le> 150 \<and>
   (\<forall>c \<in> set (sanitizeFilename s a). \<not> forbidden c \<and> \<not> is_space c) \<and>
   (sanitize_chain s a = [] \<longrightarrow> sanitizeFilename s a = js ''download'')"
proof -
  have d: "\<not> forbidden c \<and> \<not> is_space c" if "c \<in> set (js ''download'')" for c
    using that by (auto simp: js_def forbidden_def is_space_def)
  have l: "length (sanitize_chain s a) \<le> 150"
    by (simp add: sanitize_chain_def Let_def)
  have n: "js ''download'' \<noteq> []" by (simp add: js_def)
  show ?thesis
    using d l n sanitize_chain_clean [of _ s a]
    by (auto simp: sanitizeFilename_def Let_def js_def)
qed

theorem sanitizeFilename_safe_witness:
  "sanitizeFilename (js ''a<b  c?'') False = js ''a_b_c'' \<and>
   length (sanitizeFilename (js ''a<b  c?'') False) \<le> 150 \<and>
   sanitize_chain (js ''  '') True = [] \<and>
   sanitizeFilename (js ''  '') True = js ''download''"
proof -
  have e1: "sanitizeFilename (js ''a<b  c?'') False = js ''a_b_c''"
    by (simp add: sanitizeFilename_def sanitize_chain_def Let_def js_def forbidden_def
        is_control_def is_space_def strip_edges_def trim_def)
  have e2: "sanitize_chain (js ''  '') True = []"
    by (simp add: sanitize_chain_def Let_def js_def forbidden_def is_control_def is_space_def
        non_ascii_def strip_edges_def trim_def)
  show ?thesis
    using sanitizeFilename_safe [of "js ''a<b  c?''" False] sanitizeFilename_safe [of "js ''  ''" True]
      e1 e2 by simp
qed

section \<open>Properties of the regular expressions\<close>

lemma match_here_sound:
  "match_here r s = Some ms \<Longrightarrow> list_all2 item_ok r ms \<and> (\<exists>rest. s = concat ms @ rest)"
proof (induction r s arbitrary: ms rule: match_here.induct)
  case (1 s)
  then show ?case by simp
next
  case (2 p r)
  then show ?case by simp
next
  case (3 p r c cs)
  then show ?case by (auto split: if_splits)
next
  case (4 p r)
  then show ?case by auto
next
  case (5 p r c cs)
  then show ?case by (auto split: if_splits option.splits)
next
  case (6 p r)
  then show ?case by auto
next
  case (7 p r c cs)
  then show ?case by (auto split: if_splits option.splits list.splits)
qed

lemma search_sound:
  "search r s = Some ms \<Longrightarrow> list_all2 item_ok r ms \<and> (\<exists>pre rest. s = pre @ concat ms @ rest)"
proof (induction s)
  case Nil
  then show ?case using match_here_sound [of r "[]" ms] by auto
next
  case (Cons c cs)
  show ?case
  proof (cases "match_here r (c # cs)")
    case None
    with Cons obtain pre rest where "list_all2 item_ok r ms" "cs = pre @ concat ms @ rest" by auto
    then have "c # cs = (c # pre) @ concat ms @ rest" by simp
    with \<open>list_all2 item_ok r ms\<close> show ?thesis by blast
  next
    case (Some a)
    with Cons.prems have "match_here r (c # cs) = Some ms" by simp
    from match_here_sound [OF this] obtain rest where
      "list_all2 item_ok r ms" "c # cs = [] @ concat ms @ rest" by auto
    then show ?thesis by blast
  qed
qed

text \<open>A match of \<open>re_progress\<close> is a digit, digits, an optional point, digits and the
  percent sign: group 1 is a decimal numeral without sign or exponent.\<close>

lemma progress_capture_shape:
  assumes "search re_progress l = Some ms"
  shows "\<exists>d ds dot fs. ms = [[d], ds, dot, fs, [37]] \<and> is_digit d \<and> list_all is_digit ds \<and>
           (dot = [] \<or> dot = [46]) \<and> list_all is_digit fs"
proof -
  from search_sound [OF assms] have "list_all2 item_ok re_progress ms" by simp
  then obtain a ds dot fs e where ms: "ms = [a, ds, dot, fs, e]"
    and a: "length a = 1" "list_all is_digit a" and ds: "list_all is_digit ds"
    and dot: "length dot \<le> 1" "list_all (ch 46) dot" and fs: "list_all is_digit fs"
    and e: "length e = 1" "list_all (ch 37) e"
    by (auto simp: re_progress_def list_all2_Cons1)
  from a obtain d where d: "a = [d]" "is_digit d" by (cases a) auto
  from e have e': "e = [37]" by (cases e) (auto simp: ch_def)
  from dot have dot': "dot = [] \<or> dot = [46]" by (cases dot) (auto simp: ch_def)
  from ms d e' dot' ds fs show ?thesis by blast
qed

text \<open>A line without a percent sign has no percent token.\<close>

lemma no_percent_sign:
  assumes "37 \<notin> set l"
  shows "search re_progress l = None"
proof (rule ccontr)
  assume "search re_progress l \<noteq> None"
  then obtain ms where m: "search re_progress l = Some ms" by auto
  from progress_capture_shape [OF m] obtain d ds dot fs where "ms = [[d], ds, dot, fs, [37]]" by blast
  moreover from search_sound [OF m] obtain pre rest where "l = pre @ concat ms @ rest" by blast
  ultimately have "37 \<in> set l" by simp
  with assms show False by simp
qed

section \<open>Properties of the progress parser\<close>

lemma progress_line_match:
  "search re_progress (js ''[download]  42.5% of ~10.00MiB at 1.20MiB/s'') =
     Some [js ''4'', js ''2'', js ''.'', js ''5'', js ''%'']"
  by (simp add: re_progress_def js_def is_digit_def ch_def)

lemma speed_line_match:
  "map_option concat (search re_speed (js ''[download]  42.5% of ~10.00MiB at 1.20MiB/s'')) =
     Some (js ''1.20MiB/s'')"
  by (simp add: re_speed_def js_def is_digit_def ch_def ci_def is_space_def)

lemma parseFloat_example: "parseFloat (js ''42.5'') = 85 / 2"
  by (simp add: parseFloat_def js_def is_digit_def digits_value_def)

lemma updateProgress_example:
  "bar_value (progressBar (updateProgress st (js ''[download]  42.5% of ~10.00MiB at 1.20MiB/s''))) = 85 / 2 \<and>
   bar_speed (progressBar (updateProgress st (js ''[download]  42.5% of ~10.00MiB at 1.20MiB/s''))) =
     js ''1.20MiB/s'' \<and>
   (search re_progress l = None \<longrightarrow>
      progressBar (updateProgress st l) = progressBar st \<and>
      progressStarted (updateProgress st l) = progressStarted st)"
proof -
  obtain ms where ms:
    "search re_progress (js ''[download]  42.5% of ~10.00MiB at 1.20MiB/s'') = Some ms"
    "parseFloat (concat (take 4 ms)) = 85 / 2"
    using progress_line_match parseFloat_example by (simp add: js_def)
  from speed_line_match obtain sm where sm:
    "search re_speed (js ''[download]  42.5% of ~10.00MiB at 1.20MiB/s'') = Some sm"
    "concat sm = js ''1.20MiB/s''" by auto
  show ?thesis
    by (simp add: updateProgress_def Let_def ms sm bar_update_def bar_start_def)
qed

lemma speed_at_line_match:
  "map_option (\<lambda>sm. concat (drop 4 sm))
     (search re_speed_at (js ''[download]  42.5% of ~10.00MiB at 1.20MiB/s'')) =
     Some (js ''1.20MiB/s'')"
  by (simp add: re_speed_at_def js_def ch_def is_space_def)

lemma on_data_simple_line:
  "bar_value (progressBar (on_data_simple st (js ''[download]  42.5% of ~10.00MiB at 1.20MiB/s''))) = 85 / 2 \<and>
   bar_speed (progressBar (on_data_simple st (js ''[download]  42.5% of ~10.00MiB at 1.20MiB/s''))) =
     js ''1.20MiB/s'' \<and>
   (search re_progress l = None \<longrightarrow> on_data_simple st l = st)"
proof -
  obtain ms where ms:
    "search re_progress (js ''[download]  42.5% of ~10.00MiB at 1.20MiB/s'') = Some ms"
    "parseFloat (concat (take 4 ms)) = 85 / 2"
    using progress_line_match parseFloat_example by (simp add: js_def)
  from speed_at_line_match obtain sm where sm:
    "search re_speed_at (js ''[download]  42.5% of ~10.00MiB at 1.20MiB/s'') = Some sm"
    "concat (drop 4 sm) = js ''1.20MiB/s''" by auto
  show ?thesis
    by (simp add: on_data_simple_def Let_def ms sm)
qed

text \<open>
  C6. In every state of the parser, the line
  \<^verbatim>\<open>[download]  42.5% of ~10.00MiB at 1.20MiB/s\<close> sets the percent to 42.5 and the
  throughput to \<^verbatim>\<open>1.20MiB/s\<close>; a line in which the percent pattern has no match leaves the
  bar (percent, throughput) and \<open>progressStarted\<close> as they were. The same holds of the
  handlers of \<^verbatim>\<open>src/index.js\<close>, which leave the whole state as it was. Neither parser has a
  failing branch: the string operations they use do not throw, and they return a state
  for every line.
\<close>

theorem updateProgress_line:
  "bar_value (progressBar (updateProgress st (js ''[download]  42.5% of ~10.00MiB at 1.20MiB/s''))) = 85 / 2 \<and>
   bar_speed (progressBar (updateProgress st (js ''[download]  42.5% of ~10.00MiB at 1.20MiB/s''))) =
     js ''1.20MiB/s'' \<and>
   (search re_progress l = None \<longrightarrow>
      progressBar (updateProgress st l) = progressBar st \<and>
      progressStarted (updateProgress st l) = progressStarted st) \<and>
   bar_value (progressBar (on_data_simple st (js ''[download]  42.5% of ~10.00MiB at 1.20MiB/s''))) = 85 / 2 \<and>
   bar_speed (progressBar (on_data_simple st (js ''[download]  42.5% of ~10.00MiB at 1.20MiB/s''))) =
     js ''1.20MiB/s'' \<and>
   (search re_progress l = None \<longrightarrow> on_data_simple st l = st)"
  using updateProgress_example [of st l] on_data_simple_line [of st l] by simp

theorem updateProgress_line_witness:
  "search re_progress (js ''[Merger] Merging formats'') = None \<and>
   progressBar (updateProgress initial_progress (js ''[Merger] Merging formats'')) = new_bar \<and>
   currentStatus (updateProgress initial_progress (js ''[Merger] Merging formats'')) =
     js ''Merging files...''"
proof -
  have n: "search re_progress (js ''[Merger] Merging formats'') = None"
    by (rule no_percent_sign) (simp add: js_def)
  have d: "detect_phase (js ''[Merger] Merging formats'') (currentStatus initial_progress) =
     js ''Merging files...''"
    by (simp add: detect_phase_def js_def)
  have c: "currentStatus (updateProgress initial_progress (js ''[Merger] Merging formats'')) =
     js ''Merging files...''"
    by (simp add: updateProgress_def Let_def n d)
  show ?thesis
    using updateProgress_line [of initial_progress "js ''[Merger] Merging formats''"] n c
    by (simp add: initial_progress_def)
qed

lemma parseFloat_nonneg: "0 \<le> parseFloat s"
  by (simp add: parseFloat_def Let_def)

lemma updateProgress_nonneg:
  "0 \<le> bar_value (progressBar st) \<Longrightarrow> 0 \<le> bar_value (progressBar (updateProgress st l))"
  by (simp add: updateProgress_def Let_def bar_update_def bar_start_def parseFloat_nonneg
      split: option.splits)

lemma updateProgress_le:
  "bar_value (progressBar st) \<le> 100 \<Longrightarrow>
   (\<And>ms. search re_progress l = Some ms \<Longrightarrow> parseFloat (concat (take 4 ms)) \<le> 100) \<Longrightarrow>
   bar_value (progressBar (updateProgress st l)) \<le> 100"
  by (simp add: updateProgress_def Let_def bar_update_def bar_start_def split: option.splits)

lemma foldl_updateProgress_nonneg:
  "0 \<le> bar_value (progressBar st) \<Longrightarrow>
   0 \<le> bar_value (progressBar (foldl updateProgress st ls))"
  by (induction ls arbitrary: st) (simp_all add: updateProgress_nonneg)

lemma foldl_updateProgress_le:
  "bar_value (progressBar st) \<le> 100 \<Longrightarrow>
   (\<forall>l \<in> set ls. \<forall>ms. search re_progress l = Some ms \<longrightarrow> parseFloat (concat (take 4 ms)) \<le> 100) \<Longrightarrow>
   bar_value (progressBar (foldl updateProgress st ls)) \<le> 100"
proof (induction ls arbitrary: st)
  case Nil
  then show ?case by simp
next
  case (Cons l ls)
  have "bar_value (progressBar (updateProgress st l)) \<le> 100"
    using Cons.prems by (intro updateProgress_le) auto
  with Cons show ?case by simp
qed

text \<open>
  C9, as stated, fails: the parser passes the numeral before the percent sign to the bar
  as it is, so the line \<^verbatim>\<open>150%\<close> sets the percent to 150.
\<close>

theorem percent_range_counterexample:
  "\<not> (bar_value (progressBar (foldl updateProgress initial_progress [js ''150%''])) \<le> 100)"
  by (simp add: updateProgress_def Let_def re_progress_def js_def is_digit_def ch_def
      parseFloat_def digits_value_def bar_update_def bar_start_def initial_progress_def
      split: option.splits)

lemma close_progress_value:
  "bar_value (progressBar (close_progress st)) =
     (if progressStarted st then 100 else bar_value (progressBar st))"
  by (simp add: close_progress_def bar_stop_def bar_update_def)

text \<open>
  C9, amended. For every sequence of lines consumed from the initial state, the percent
  is never negative, also after the \<^verbatim>\<open>close\<close> handler has completed the bar; it is at most
  100 when every percent numeral among the lines is at most 100 (the parser does not
  clamp).
\<close>

theorem percent_nonneg:
  "0 \<le> bar_value (progressBar (foldl updateProgress initial_progress ls)) \<and>
   0 \<le> bar_value (progressBar (close_progress (foldl updateProgress initial_progress ls))) \<and>
   ((\<forall>l \<in> set ls. \<forall>ms. search re_progress l = Some ms \<longrightarrow>
        parseFloat (concat (take 4 ms)) \<le> 100) \<longrightarrow>
    bar_value (progressBar (foldl updateProgress initial_progress ls)) \<le> 100)"
proof -
  have i: "bar_value (progressBar initial_progress) = 0"
    by (simp add: initial_progress_def new_bar_def)
  show ?thesis
    using foldl_updateProgress_nonneg [of initial_progress ls]
      foldl_updateProgress_le [of initial_progress ls] i
    by (auto simp: close_progress_value)
qed

theorem percent_nonneg_witness:
  "bar_value (progressBar (foldl updateProgress initial_progress [js ''50%'', js ''x''])) = 50 \<and>
   0 \<le> bar_value (progressBar (foldl updateProgress initial_progress [js ''50%'', js ''x''])) \<and>
   bar_value (progressBar (foldl updateProgress initial_progress [js ''50%'', js ''x''])) \<le> 100"
proof -
  have v: "bar_value (progressBar (foldl updateProgress initial_progress [js ''50%'', js ''x''])) = 50"
    by (simp add: updateProgress_def Let_def re_progress_def js_def is_digit_def ch_def
        parseFloat_def digits_value_def bar_update_def bar_start_def initial_progress_def
        split: option.splits)
  have h: "\<forall>l \<in> set [js ''50%'', js ''x'']. \<forall>ms. search re_progress l = Some ms \<longrightarrow>
        parseFloat (concat (take 4 ms)) \<le> 100"
    by (simp add: re_progress_def js_def is_digit_def ch_def parseFloat_def digits_value_def)
  show ?thesis
    using percent_nonneg [of "[js ''50%'', js ''x'']"] h v by simp
qed

section \<open>Properties of the file system operations\<close>

lemma lookup_rmSync: "lookup (rmSync d f) q = (if path_under d q then None else lookup f q)"
  by (induction f) (auto simp: lookup_def rmSync_def)

lemma lookup_write_node: "lookup (write_node p n f) q = (if q = p then Some n else lookup f q)"
  by (induction f) (auto simp: lookup_def write_node_def)

lemma copyFileSync_ok:
  "copyFileSync src dest f = Inr f' \<Longrightarrow>
   \<exists>c. lookup f src = Some (File c) \<and> (\<forall>q. lookup f' q = (if q = dest then Some (File c) else lookup f q))"
  by (auto simp: copyFileSync_def lookup_write_node split: option.splits node.splits if_splits)

lemma under_iff: "path_under d q \<longleftrightarrow> (\<exists>r. q = d @ r)"
proof
  assume "path_under d q"
  then have "q = d @ drop (length d) q"
    unfolding path_under_def by (metis append_take_drop_id)
  then show "\<exists>r. q = d @ r" ..
next
  assume "\<exists>r. q = d @ r"
  then show "path_under d q" by (auto simp: path_under_def)
qed

lemma under_append: "path_under d p \<Longrightarrow> path_under d (p @ q)"
  by (auto simp: under_iff)

lemma under_snoc:
  assumes "path_under d (p @ [x])"
  shows "path_under d p \<or> d = p @ [x]"
proof -
  from assms obtain r where r: "p @ [x] = d @ r" by (auto simp: under_iff)
  show ?thesis
  proof (cases r rule: rev_cases)
    case Nil
    with r show ?thesis by simp
  next
    case (snoc r' y)
    with r have "p = d @ r'" by simp
    then show ?thesis by (auto simp: under_iff)
  qed
qed

text \<open>\<^verbatim>\<open>path.join\<close>: a plain name is appended as one component; separators, \<^verbatim>\<open>.\<close> and
  \<^verbatim>\<open>..\<close> are resolved.\<close>

lemma segments_plain: "\<forall>c \<in> set s. \<not> p c \<Longrightarrow> segments p s = [s]"
  by (induction s) auto

lemma path_join_name:
  assumes "\<forall>c \<in> set s. \<not> is_sep win c" and "s \<noteq> []" and "s \<noteq> js ''.''" and "s \<noteq> js ''..''"
  shows "path_join win dir s = dir @ [s]"
  using assms by (simp add: path_join_def segments_plain join_step_def)

lemma path_join_examples:
  "path_join False [js ''tmp''] (js ''v1'') = [js ''tmp'', js ''v1''] \<and>
   path_join False [js ''tmp''] (js ''..'') = [] \<and>
   path_join False [js ''tmp''] (js ''../../x'') = [js ''x''] \<and>
   path_join False [js ''tmp''] (js ''a/./b//c'') = [js ''tmp'', js ''a'', js ''b'', js ''c''] \<and>
   path_join False [js ''tmp''] [97, 92, 98] = [js ''tmp'', [97, 92, 98]] \<and>
   path_join True [js ''tmp''] [97, 92, 98] = [js ''tmp'', js ''a'', js ''b'']"
  by (simp add: path_join_def join_step_def is_sep_def js_def)

lemma readdirSync_is_dir: "readdirSync d f = Inr files \<Longrightarrow> is_dir f d"
  by (auto simp: readdirSync_def split: if_splits)

lemma copy_one:
  assumes "lookup f (tmp @ [file]) = Some (File c)" "is_dir f out" "lookup f (out @ [file]) \<noteq> Some Dir"
  shows "copy_files tmp out [file] f = (None, write_node (out @ [file]) (File c) f)"
  using assms by (simp add: copyFileSync_def)

section \<open>Properties of downloadVideoWithProgress\<close>

lemma updateProgress_errorOutput: "errorOutput (updateProgress st l) = errorOutput st"
  by (simp add: updateProgress_def Let_def split: option.splits)

lemma errorOutput_foldl:
  "errorOutput (foldl on_data st cs) = errorOutput st @ stderr_text cs"
proof (induction cs arbitrary: st)
  case Nil
  then show ?case by (simp add: stderr_text_def)
next
  case (Cons c cs)
  then show ?case by (cases c) (simp_all add: stderr_text_def updateProgress_errorOutput)
qed

lemma download_spawned:
  assumes "spawned_run cfg sp url opts w = Some r"
  shows "downloadVideoWithProgress cfg sp url opts w =
     (case r_terminal r of
        Closed code \<Rightarrow>
          (fst (on_close (downloadTempDir cfg opts w) (outputDir opts) (ext_of (format opts))
                  (stderr_text (r_output r)) code (fsys (r_after r))),
           (r_after r)\<lparr>fsys := snd (on_close (downloadTempDir cfg opts w) (outputDir opts)
                  (ext_of (format opts)) (stderr_text (r_output r)) code (fsys (r_after r)))\<rparr>)
      | SpawnError err \<Rightarrow>
          (Rejected err, (r_after r)\<lparr>fsys := rmSync (downloadTempDir cfg opts w) (fsys (r_after r))\<rparr>)
      | Thrown err \<Rightarrow> (Rejected err, r_after r))"
  using assms
  by (auto simp: spawned_run_def downloadVideoWithProgress_def Let_def errorOutput_foldl
      initial_progress_def on_error_def split: sum.splits terminal.splits prod.splits)
text \<open>
  The two handlers clean up. When the subprocess has been spawned and closes otherwise
  than by exit code 0 (a nonzero code or a signal), or ends with an \<^verbatim>\<open>error\<close> event, the
  promise is rejected, and afterwards nothing exists at or below the per-attempt
  temporary directory while every other path of the file system, the destination
  directory included, is exactly as the subprocess left it: the directory is deleted and
  nothing is copied.
\<close>

lemma handled_failure_cleanup:
  assumes "spawned_run cfg sp url opts w = Some r"
    and "(r_terminal r = Closed code \<and> code \<noteq> Some 0) \<or> r_terminal r = SpawnError err"
  shows "(\<exists>e. fst (downloadVideoWithProgress cfg sp url opts w) = Rejected e) \<and>
         (\<forall>q. lookup (fsys (snd (downloadVideoWithProgress cfg sp url opts w))) q =
            (if path_under (downloadTempDir cfg opts w) q then None else lookup (fsys (r_after r)) q))"
  using assms(2)
proof
  assume "r_terminal r = Closed code \<and> code \<noteq> Some 0"
  then show ?thesis
    by (simp add: download_spawned [OF assms(1)] on_close_def lookup_rmSync)
next
  assume "r_terminal r = SpawnError err"
  then show ?thesis
    by (simp add: download_spawned [OF assms(1)] lookup_rmSync)
qed

lemma handled_failure_cleanup_example:
  "r_terminal (the (spawned_run demo_config
       (writing [js ''tmp'', js ''v1'', js ''a.part''] [] (Closed (Some 1)))
       (js ''u'') demo_options demo_world)) = Closed (Some 1) \<and>
   fst (downloadVideoWithProgress demo_config
       (writing [js ''tmp'', js ''v1'', js ''a.part''] [] (Closed (Some 1)))
       (js ''u'') demo_options demo_world) = Rejected (Error (js ''Download failed with code 1'')) \<and>
   lookup (fsys (snd (downloadVideoWithProgress demo_config
       (writing [js ''tmp'', js ''v1'', js ''a.part''] [] (Closed (Some 1)))
       (js ''u'') demo_options demo_world))) [js ''tmp'', js ''v1'', js ''a.part''] = None \<and>
   lookup (fsys (snd (downloadVideoWithProgress demo_config
       (writing [js ''tmp'', js ''v1'', js ''a.part''] [] (Closed (Some 1)))
       (js ''u'') demo_options demo_world))) [js ''tmp'', js ''v1''] = None \<and>
   lookup (fsys (snd (downloadVideoWithProgress demo_config
       (writing [js ''tmp'', js ''v1'', js ''a.part''] [] (Closed (Some 1)))
       (js ''u'') demo_options demo_world))) [js ''dl'', js ''a.part''] = None"
  by code_simp

text \<open>When \<^verbatim>\<open>spawn\<close> throws, nothing is cleaned up: the promise is rejected with what was
  thrown and the file system is left as it is.\<close>

lemma spawn_throw_no_cleanup:
  assumes "spawned_run cfg sp url opts w = Some r" and "r_terminal r = Thrown err"
  shows "downloadVideoWithProgress cfg sp url opts w = (Rejected err, r_after r)"
  by (simp add: download_spawned [OF assms(1)] assms(2))

text \<open>
  C2, the failing input. A launch error that \<^verbatim>\<open>spawn\<close> throws (here \<^verbatim>\<open>E2BIG\<close>, as for a URL
  beyond the system's limit for a command line) rejects the promise before any handler is
  registered: \<^verbatim>\<open>fs.rmSync\<close> is not called, and the per-attempt temporary directory, which
  \<^verbatim>\<open>ensureDir\<close> created, is still there, where the claim expects it deleted.
\<close>

theorem spawn_throw_leaves_temp:
  "downloadTempDir demo_config demo_options (demo_world\<lparr>fsys := []\<rparr>) = [js ''tmp'', js ''v1''] \<and>
   fst (downloadVideoWithProgress demo_config throwing (js ''u'') demo_options
      (demo_world\<lparr>fsys := []\<rparr>)) = Rejected (SysError E2BIG) \<and>
   lookup (fsys (snd (downloadVideoWithProgress demo_config throwing (js ''u'') demo_options
      (demo_world\<lparr>fsys := []\<rparr>)))) [js ''tmp'', js ''v1''] = Some Dir"
  by code_simp

text \<open>
  C3, amended. After exit code 0, with the temporary directory listed: if exactly one
  entry has the expected extension ("mp3" for audio, "mp4" otherwise), it is a regular file,
  and the destination is a directory outside the temporary directory in which that name
  is not a directory, then the promise resolves to the destination, the destination holds
  the file with its content, and nothing exists at or below the temporary directory; if
  no entry matches, the temporary directory is deleted all the same and nothing else
  changes; if the copy of the one matching entry fails, the promise resolves to the
  temporary directory, which is kept with all its content.
\<close>

theorem success_promotes:
  assumes sp: "spawned_run cfg sp url opts w = Some r"
    and ok: "r_terminal r = Closed (Some 0)"
    and tmp: "tmp = downloadTempDir cfg opts w"
    and out: "out = outputDir opts"
    and rd: "readdirSync tmp (fsys (r_after r)) = Inr files"
    and res: "res = downloadVideoWithProgress cfg sp url opts w"
  shows
    "(filter (\<lambda>n. endsWith n ([46] @ ext_of (format opts))) files = [file] \<and>
      lookup (fsys (r_after r)) (tmp @ [file]) = Some (File c) \<and>
      is_dir (fsys (r_after r)) out \<and> lookup (fsys (r_after r)) (out @ [file]) \<noteq> Some Dir \<and>
      \<not> path_under tmp out \<longrightarrow>
        fst res = Resolved out \<and> lookup (fsys (snd res)) (out @ [file]) = Some (File c) \<and>
        (\<forall>q. path_under tmp q \<longrightarrow> lookup (fsys (snd res)) q = None)) \<and>
     (filter (\<lambda>n. endsWith n ([46] @ ext_of (format opts))) files = [] \<longrightarrow>
        fst res = Resolved out \<and>
        (\<forall>q. lookup (fsys (snd res)) q = (if path_under tmp q then None else lookup (fsys (r_after r)) q))) \<and>
     (filter (\<lambda>n. endsWith n ([46] @ ext_of (format opts))) files = [file] \<and>
      copyFileSync (tmp @ [file]) (out @ [file]) (fsys (r_after r)) = Inl e \<longrightarrow>
        res = (Resolved tmp, r_after r))"
proof -
  let ?fa = "fsys (r_after r)"
  let ?m = "\<lambda>n. endsWith n ([46] @ ext_of (format opts))"
  have d: "res = (fst (on_close tmp out (ext_of (format opts)) (stderr_text (r_output r)) (Some 0) ?fa),
                  (r_after r)\<lparr>fsys := snd (on_close tmp out (ext_of (format opts))
                     (stderr_text (r_output r)) (Some 0) ?fa)\<rparr>)"
    by (simp add: res download_spawned [OF sp] ok tmp out)
  have a: "filter ?m files = [file] \<and> lookup ?fa (tmp @ [file]) = Some (File c) \<and>
      is_dir ?fa out \<and> lookup ?fa (out @ [file]) \<noteq> Some Dir \<and> \<not> path_under tmp out \<longrightarrow>
        fst res = Resolved out \<and> lookup (fsys (snd res)) (out @ [file]) = Some (File c) \<and>
        (\<forall>q. path_under tmp q \<longrightarrow> lookup (fsys (snd res)) q = None)"
  proof (intro impI, elim conjE)
    assume f: "filter ?m files = [file]" and src: "lookup ?fa (tmp @ [file]) = Some (File c)"
      and od: "is_dir ?fa out" and nd: "lookup ?fa (out @ [file]) \<noteq> Some Dir"
      and nu: "\<not> path_under tmp out"
    have oc: "on_close tmp out (ext_of (format opts)) (stderr_text (r_output r)) (Some 0) ?fa =
        (Resolved out, rmSync tmp (write_node (out @ [file]) (File c) ?fa))"
      using rd f copy_one [OF src od nd] by (simp add: on_close_def)
    have "\<not> path_under tmp (out @ [file])"
    proof
      assume "path_under tmp (out @ [file])"
      with under_snoc nu have t: "tmp = out @ [file]" by blast
      from readdirSync_is_dir [OF rd] t have "lookup ?fa (out @ [file]) = Some Dir"
        by (simp add: is_dir_def)
      with nd show False by simp
    qed
    then show "fst res = Resolved out \<and> lookup (fsys (snd res)) (out @ [file]) = Some (File c) \<and>
        (\<forall>q. path_under tmp q \<longrightarrow> lookup (fsys (snd res)) q = None)"
      by (simp add: d oc lookup_rmSync lookup_write_node)
  qed
  have b: "filter ?m files = [] \<longrightarrow> fst res = Resolved out \<and>
        (\<forall>q. lookup (fsys (snd res)) q = (if path_under tmp q then None else lookup ?fa q))"
    using rd by (simp add: d on_close_def lookup_rmSync)
  have c: "filter ?m files = [file] \<and> copyFileSync (tmp @ [file]) (out @ [file]) ?fa = Inl e \<longrightarrow>
      res = (Resolved tmp, r_after r)"
    using rd by (simp add: d on_close_def)
  show ?thesis by (rule conjI [OF a conjI [OF b c]])
qed

theorem success_promotes_witness:
  "fst (downloadVideoWithProgress demo_config
       (writing [js ''tmp'', js ''v1'', js ''a.mp4''] [] (Closed (Some 0)))
       (js ''u'') demo_options (demo_world\<lparr>fsys := []\<rparr>)) = Resolved [js ''dl''] \<and>
   lookup (fsys (snd (downloadVideoWithProgress demo_config
       (writing [js ''tmp'', js ''v1'', js ''a.mp4''] [] (Closed (Some 0)))
       (js ''u'') demo_options (demo_world\<lparr>fsys := []\<rparr>)))) [js ''dl'', js ''a.mp4''] =
     Some (File (js ''data'')) \<and>
   lookup (fsys (snd (downloadVideoWithProgress demo_config
       (writing [js ''tmp'', js ''v1'', js ''a.mp4''] [] (Closed (Some 0)))
       (js ''u'') demo_options (demo_world\<lparr>fsys := []\<rparr>)))) [js ''tmp'', js ''v1''] = None \<and>
   lookup (fsys (snd (downloadVideoWithProgress demo_config
       (writing [js ''tmp'', js ''v1'', js ''a.mp4''] [] (Closed (Some 0)))
       (js ''u'') demo_options (demo_world\<lparr>fsys := []\<rparr>)))) [js ''tmp'', js ''v1'', js ''a.mp4''] =
     None"
proof -
  let ?sp = "writing [js ''tmp'', js ''v1'', js ''a.mp4''] [] (Closed (Some 0))"
  let ?w = "demo_world\<lparr>fsys := []\<rparr>"
  let ?r = "the (spawned_run demo_config ?sp (js ''u'') demo_options ?w)"
  let ?tmp = "[js ''tmp'', js ''v1'']"
  let ?out = "[js ''dl'']"
  have s: "spawned_run demo_config ?sp (js ''u'') demo_options ?w = Some ?r"
    by code_simp
  have t: "r_terminal ?r = Closed (Some 0)"
    by code_simp
  have tmp: "?tmp = downloadTempDir demo_config demo_options ?w"
    and out: "?out = outputDir demo_options"
    by code_simp+
  have rd: "readdirSync ?tmp (fsys (r_after ?r)) = Inr [js ''a.mp4'']"
    by code_simp
  have f: "filter (\<lambda>n. endsWith n ([46] @ ext_of (format demo_options))) [js ''a.mp4''] = [js ''a.mp4'']"
    by code_simp
  have src: "lookup (fsys (r_after ?r)) (?tmp @ [js ''a.mp4'']) = Some (File (js ''data''))"
    by code_simp
  have od: "is_dir (fsys (r_after ?r)) ?out"
    by code_simp
  have nd: "lookup (fsys (r_after ?r)) (?out @ [js ''a.mp4'']) \<noteq> Some Dir"
    by code_simp
  have nu: "\<not> path_under ?tmp ?out"
    by code_simp
  have u1: "path_under ?tmp ?tmp" and u2: "path_under ?tmp [js ''tmp'', js ''v1'', js ''a.mp4'']"
    by code_simp+
  from success_promotes [OF s t tmp out rd refl, of "js ''a.mp4''" "js ''data''"] f src od nd nu
  have "fst (downloadVideoWithProgress demo_config ?sp (js ''u'') demo_options ?w) = Resolved ?out \<and>
      lookup (fsys (snd (downloadVideoWithProgress demo_config ?sp (js ''u'') demo_options ?w)))
        (?out @ [js ''a.mp4'']) = Some (File (js ''data'')) \<and>
      (\<forall>q. path_under ?tmp q \<longrightarrow>
         lookup (fsys (snd (downloadVideoWithProgress demo_config ?sp (js ''u'') demo_options ?w))) q = None)"
    by blast
  with u1 u2 show ?thesis by simp
qed

text \<open>
  C3, as stated, fails when the copy fails. Here the download directory already holds a
  directory named \<^verbatim>\<open>a.mp4\<close>; the subprocess writes the regular file \<^verbatim>\<open>a.mp4\<close> into the
  temporary directory and exits with 0. \<^verbatim>\<open>copyFileSync\<close> throws, the \<^verbatim>\<open>catch\<close> branch
  resolves to the temporary directory, which still exists with the file in it, and the
  destination does not hold the file.
\<close>

theorem staging_failure_counterexample:
  "r_terminal (the (spawned_run demo_config
       (writing [js ''tmp'', js ''v1'', js ''a.mp4''] [] (Closed (Some 0)))
       (js ''u'') demo_options demo_world)) = Closed (Some 0) \<and>
   readdirSync [js ''tmp'', js ''v1''] (fsys (r_after (the (spawned_run demo_config
       (writing [js ''tmp'', js ''v1'', js ''a.mp4''] [] (Closed (Some 0)))
       (js ''u'') demo_options demo_world)))) = Inr [js ''a.mp4''] \<and>
   lookup (fsys (r_after (the (spawned_run demo_config
       (writing [js ''tmp'', js ''v1'', js ''a.mp4''] [] (Closed (Some 0)))
       (js ''u'') demo_options demo_world)))) [js ''tmp'', js ''v1'', js ''a.mp4''] =
     Some (File (js ''data'')) \<and>
   fst (downloadVideoWithProgress demo_config
       (writing [js ''tmp'', js ''v1'', js ''a.mp4''] [] (Closed (Some 0)))
       (js ''u'') demo_options demo_world) = Resolved [js ''tmp'', js ''v1''] \<and>
   lookup (fsys (snd (downloadVideoWithProgress demo_config
       (writing [js ''tmp'', js ''v1'', js ''a.mp4''] [] (Closed (Some 0)))
       (js ''u'') demo_options demo_world))) [js ''dl'', js ''a.mp4''] = Some Dir \<and>
   lookup (fsys (snd (downloadVideoWithProgress demo_config
       (writing [js ''tmp'', js ''v1'', js ''a.mp4''] [] (Closed (Some 0)))
       (js ''u'') demo_options demo_world))) [js ''tmp'', js ''v1''] = Some Dir \<and>
   lookup (fsys (snd (downloadVideoWithProgress demo_config
       (writing [js ''tmp'', js ''v1'', js ''a.mp4''] [] (Closed (Some 0)))
       (js ''u'') demo_options demo_world))) [js ''tmp'', js ''v1'', js ''a.mp4''] =
     Some (File (js ''data''))"
  by code_simp

section \<open>Properties of getVideoInfo\<close>

lemma try_one:
  "try_attempts sp parse [a] w =
     (case info_attempt parse (sp a w) of
        Inr info \<Rightarrow> (Some (Inr info), [a], r_after (sp a w))
      | Inl e \<Rightarrow> (Some (Inl e), [a], r_after (sp a w)))"
  by (simp add: Let_def split: sum.splits)

lemma try_two:
  "try_attempts sp parse [a1, a2] w =
     (case info_attempt parse (sp a1 w) of
        Inr info \<Rightarrow> (Some (Inr info), [a1], r_after (sp a1 w))
      | Inl e1 \<Rightarrow>
          (case info_attempt parse (sp a2 (r_after (sp a1 w))) of
             Inr info \<Rightarrow> (Some (Inr info), [a1, a2], r_after (sp a2 (r_after (sp a1 w))))
           | Inl e2 \<Rightarrow> (Some (Inl e2), [a1, a2], r_after (sp a2 (r_after (sp a1 w))))))"
proof -
  have "try_attempts sp parse (a1 # [a2]) w =
     (case info_attempt parse (sp a1 w) of
        Inr info \<Rightarrow> (Some (Inr info), [a1], r_after (sp a1 w))
      | Inl e1 \<Rightarrow>
          (case try_attempts sp parse [a2] (r_after (sp a1 w)) of
             (res, spawned, w') \<Rightarrow> (res, a1 # spawned, w')))"
    by (simp only: try_attempts.simps Let_def) (simp split: sum.splits)
  then show ?thesis
    by (simp only: try_one) (simp split: sum.splits)
qed
lemma info_attempt_nonzero:
  "r_terminal r = Closed (Some c) \<Longrightarrow> c \<noteq> 0 \<Longrightarrow> \<exists>e. info_attempt parse r = Inl e"
  by (simp add: info_attempt_def)

lemma info_attempt_ok:
  "r_terminal r = Closed (Some 0) \<Longrightarrow> stdout_text (r_output r) \<noteq> [] \<Longrightarrow>
   parse (stdout_text (r_output r)) = Some info \<Longrightarrow> info_attempt parse r = Inr info"
  by (simp add: info_attempt_def)
text \<open>
  C1, amended. \<open>getVideoInfo\<close> has two attempts. If the first subprocess exits with a
  nonzero code and the second exits with 0 and has written a non-empty output that
  \<^verbatim>\<open>JSON.parse\<close> accepts, the result is the parsed output and exactly two subprocesses were
  spawned; if the first one already exits with 0 and such an output, it is the only one
  spawned.
\<close>

theorem getVideoInfo_second_attempt:
  assumes "info_attempts cfg url w = [a1, a2]"
  shows
    "(r_terminal (sp a1 w) = Closed (Some c1) \<and> c1 \<noteq> 0 \<and>
      r_terminal (sp a2 (r_after (sp a1 w))) = Closed (Some 0) \<and>
      stdout_text (r_output (sp a2 (r_after (sp a1 w)))) \<noteq> [] \<and>
      parse (stdout_text (r_output (sp a2 (r_after (sp a1 w))))) = Some info \<longrightarrow>
        getVideoInfo cfg sp parse url w =
          (Some (Inr info), [a1, a2], r_after (sp a2 (r_after (sp a1 w))))) \<and>
     (r_terminal (sp a1 w) = Closed (Some 0) \<and>
      stdout_text (r_output (sp a1 w)) \<noteq> [] \<and>
      parse (stdout_text (r_output (sp a1 w))) = Some info \<longrightarrow>
        getVideoInfo cfg sp parse url w = (Some (Inr info), [a1], r_after (sp a1 w)))"
proof -
  have g: "getVideoInfo cfg sp parse url w = try_attempts sp parse [a1, a2] w"
    by (simp add: getVideoInfo_def assms)
  have a: "getVideoInfo cfg sp parse url w =
      (Some (Inr info), [a1, a2], r_after (sp a2 (r_after (sp a1 w))))"
    if t1: "r_terminal (sp a1 w) = Closed (Some c1)" and c1: "c1 \<noteq> 0"
      and t2: "r_terminal (sp a2 (r_after (sp a1 w))) = Closed (Some 0)"
      and o2: "stdout_text (r_output (sp a2 (r_after (sp a1 w)))) \<noteq> []"
      and p2: "parse (stdout_text (r_output (sp a2 (r_after (sp a1 w))))) = Some info"
  proof -
    from info_attempt_nonzero [where parse = parse, OF t1 c1] obtain e where "info_attempt parse (sp a1 w) = Inl e" ..
    moreover from info_attempt_ok [where parse = parse and r = "sp a2 (r_after (sp a1 w))", OF t2 o2 p2]
    have "info_attempt parse (sp a2 (r_after (sp a1 w))) = Inr info" .
    ultimately show ?thesis by (simp add: g try_two)
  qed
  have b: "getVideoInfo cfg sp parse url w = (Some (Inr info), [a1], r_after (sp a1 w))"
    if "r_terminal (sp a1 w) = Closed (Some 0)" "stdout_text (r_output (sp a1 w)) \<noteq> []"
      "parse (stdout_text (r_output (sp a1 w))) = Some info"
    using info_attempt_ok [where parse = parse and r = "sp a1 w", OF that] by (simp add: g try_two)
  show ?thesis
  proof (intro conjI impI)
    assume "r_terminal (sp a1 w) = Closed (Some c1) \<and> c1 \<noteq> 0 \<and>
      r_terminal (sp a2 (r_after (sp a1 w))) = Closed (Some 0) \<and>
      stdout_text (r_output (sp a2 (r_after (sp a1 w)))) \<noteq> [] \<and>
      parse (stdout_text (r_output (sp a2 (r_after (sp a1 w))))) = Some info"
    then show "getVideoInfo cfg sp parse url w =
          (Some (Inr info), [a1, a2], r_after (sp a2 (r_after (sp a1 w))))"
      using a by simp
  next
    assume "r_terminal (sp a1 w) = Closed (Some 0) \<and>
      stdout_text (r_output (sp a1 w)) \<noteq> [] \<and>
      parse (stdout_text (r_output (sp a1 w))) = Some info"
    then show "getVideoInfo cfg sp parse url w = (Some (Inr info), [a1], r_after (sp a1 w))"
      using b by simp
  qed
qed

theorem getVideoInfo_second_attempt_witness:
  "getVideoInfo demo_config
     (scripted ([Stderr (js ''ERROR: blocked'')], Closed (Some 1)) ([Stdout (js ''{}'')], Closed (Some 0)))
     Some (js ''u'') demo_world =
   (Some (Inr (js ''{}'')),
    [[js ''--dump-json'', js ''--no-playlist'', js ''u''],
     [js ''--dump-json'', js ''--no-playlist'', js ''--extractor-args'',
      js ''youtube:player_client=tv'', js ''u'']],
    demo_world)"
proof -
  let ?sp = "scripted ([Stderr (js ''ERROR: blocked'')], Closed (Some 1)) ([Stdout (js ''{}'')], Closed (Some 0))"
  let ?a1 = "[js ''--dump-json'', js ''--no-playlist'', js ''u'']"
  let ?a2 = "[js ''--dump-json'', js ''--no-playlist'', js ''--extractor-args'',
      js ''youtube:player_client=tv'', js ''u'']"
  have a: "info_attempts demo_config (js ''u'') demo_world = [?a1, ?a2]"
    by code_simp
  have h: "r_terminal (?sp ?a1 demo_world) = Closed (Some 1) \<and> (1::int) \<noteq> 0 \<and>
      r_terminal (?sp ?a2 (r_after (?sp ?a1 demo_world))) = Closed (Some 0) \<and>
      stdout_text (r_output (?sp ?a2 (r_after (?sp ?a1 demo_world)))) \<noteq> [] \<and>
      Some (stdout_text (r_output (?sp ?a2 (r_after (?sp ?a1 demo_world))))) = Some (js ''{}'')"
    by code_simp
  have w: "r_after (?sp ?a2 (r_after (?sp ?a1 demo_world))) = demo_world"
    by code_simp
  from getVideoInfo_second_attempt [OF a, of ?sp 1 Some "js ''{}''"] h w show ?thesis
    by simp
qed

text \<open>
  C1, as stated, fails: exit code 0 alone is not success. The handler requires
  \<^verbatim>\<open>code === 0 && output\<close>, so a second attempt that exits with 0 and prints nothing is a
  failure, and the call ends with the error \<^verbatim>\<open>Failed to fetch video info\<close>.
\<close>

theorem zero_exit_counterexample:
  "r_terminal (scripted ([], Closed (Some 1)) ([], Closed (Some 0))
      [js ''--dump-json'', js ''--no-playlist'', js ''u''] demo_world) = Closed (Some 1) \<and>
   r_terminal (scripted ([], Closed (Some 1)) ([], Closed (Some 0))
      [js ''--dump-json'', js ''--no-playlist'', js ''--extractor-args'',
       js ''youtube:player_client=tv'', js ''u''] demo_world) = Closed (Some 0) \<and>
   getVideoInfo demo_config (scripted ([], Closed (Some 1)) ([], Closed (Some 0))) Some (js ''u'')
      demo_world =
     (Some (Inl (Error (js ''Failed to fetch video info''))),
      [[js ''--dump-json'', js ''--no-playlist'', js ''u''],
       [js ''--dump-json'', js ''--no-playlist'', js ''--extractor-args'',
        js ''youtube:player_client=tv'', js ''u'']],
      demo_world)"
  by code_simp

section \<open>The error of a failed attempt\<close>





section \<open>Properties of the argument vector\<close>

text \<open>
  C8, amended. For a request that carries a non-empty video id, the argument vector of
  \<open>downloadVideoWithProgress\<close> depends on the world only through the presence of the
  cookies file: two worlds that agree on it give the same vector, whatever their clocks
  and the rest of their file systems. Building the vector changes nothing (the model
  returns the vector only).
\<close>

theorem build_args_deterministic:
  assumes "videoId opts = Some v" and "v \<noteq> []"
    and "\<forall>c. cookiesFile cfg = Some c \<longrightarrow> existsSync (fsys w1) c = existsSync (fsys w2) c"
  shows "build_args cfg url opts w1 = build_args cfg url opts w2"
proof -
  have "downloadTempDir cfg opts w1 = downloadTempDir cfg opts w2"
    using assms(1,2) by (simp add: downloadTempDir_def)
  moreover have "cookie_args cfg w1 = cookie_args cfg w2"
    using assms(3) by (simp add: cookie_args_def split: option.splits)
  ultimately show ?thesis by (simp add: build_args_def)
qed
theorem build_args_deterministic_witness:
  "build_args (demo_config\<lparr>cookiesFile := Some [js ''c.txt'']\<rparr>) (js ''u'') demo_options
     \<lparr>fsys = [([js ''c.txt''], File [])], now = 1\<rparr> =
   build_args (demo_config\<lparr>cookiesFile := Some [js ''c.txt'']\<rparr>) (js ''u'') demo_options
     \<lparr>fsys = [([js ''x''], Dir), ([js ''c.txt''], File [])], now = 2\<rparr> \<and>
   js ''--cookies'' \<in> set (build_args (demo_config\<lparr>cookiesFile := Some [js ''c.txt'']\<rparr>) (js ''u'')
     demo_options \<lparr>fsys = [([js ''c.txt''], File [])], now = 1\<rparr>)"
proof -
  have v: "videoId demo_options = Some (js ''v1'')" "js ''v1'' \<noteq> []"
    by (simp_all add: demo_options_def js_def)
  have c: "\<forall>c. cookiesFile (demo_config\<lparr>cookiesFile := Some [js ''c.txt'']\<rparr>) = Some c \<longrightarrow>
      existsSync (fsys \<lparr>fsys = [([js ''c.txt''], File [])], now = 1\<rparr>) c =
      existsSync (fsys \<lparr>fsys = [([js ''x''], Dir), ([js ''c.txt''], File [])], now = 2\<rparr>) c"
    by (simp add: existsSync_def lookup_def js_def)
  have m: "js ''--cookies'' \<in> set (build_args (demo_config\<lparr>cookiesFile := Some [js ''c.txt'']\<rparr>) (js ''u'')
     demo_options \<lparr>fsys = [([js ''c.txt''], File [])], now = 1\<rparr>)"
    by code_simp
  from build_args_deterministic [OF v c] m show ?thesis by simp
qed

text \<open>
  C8, as stated, fails for a request without a video id: the temporary directory, and
  with it the \<^verbatim>\<open>-o\<close> template, is then named after \<^verbatim>\<open>Date.now()\<close>, so the same request
  gives different vectors at different times.
\<close>

theorem build_args_clock_counterexample:
  "build_args demo_config (js ''u'') (demo_options\<lparr>videoId := None\<rparr>) \<lparr>fsys = [], now = 1\<rparr> \<noteq>
   build_args demo_config (js ''u'') (demo_options\<lparr>videoId := None\<rparr>) \<lparr>fsys = [], now = 2\<rparr>"
  by code_simp

section \<open>Properties of the batch loop\<close>

lemma batch_step_counts:
  "successful (batch_step cfg sp fmt q folder b v) + failed (batch_step cfg sp fmt q folder b v) =
     Suc (successful b + failed b) \<and>
   announced (batch_step cfg sp fmt q folder b v) = announced b @ [v]"
  by (simp add: batch_step_def split: prod.splits outcome.splits)

lemma batch_foldl_counts:
  "successful (foldl (batch_step cfg sp fmt q folder) b vs) +
   failed (foldl (batch_step cfg sp fmt q folder) b vs) = successful b + failed b + length vs \<and>
   announced (foldl (batch_step cfg sp fmt q folder) b vs) = announced b @ vs"
proof (induction vs arbitrary: b)
  case Nil
  show ?case by simp
next
  case (Cons v vs)
  show ?case
    using Cons [of "batch_step cfg sp fmt q folder b v"] batch_step_counts [of cfg sp fmt q folder b v]
    by simp
qed
text \<open>
  C5. The loop announces and downloads every selected entry, in order, whatever the
  outcomes of the earlier ones, and counts each exactly once: \<open>successful + failed\<close> is the
  number of selected entries. With three entries of which the first and third downloads
  resolve and the second is rejected, the third is still downloaded (in the world the
  second left) and the counters end at 2 and 1.
\<close>

theorem batch_result:
  "successful (download_selected cfg sp fmt q folder vs w) +
     failed (download_selected cfg sp fmt q folder vs w) = length vs \<and>
   announced (download_selected cfg sp fmt q folder vs w) = vs \<and>
   (downloadVideoWithProgress cfg sp (v_url v1) (entry_options fmt q folder v1) w = (Resolved p1, w1) \<and>
    downloadVideoWithProgress cfg sp (v_url v2) (entry_options fmt q folder v2) w1 = (Rejected e, w2) \<and>
    downloadVideoWithProgress cfg sp (v_url v3) (entry_options fmt q folder v3) w2 = (Resolved p3, w3) \<longrightarrow>
      download_selected cfg sp fmt q folder [v1, v2, v3] w =
        \<lparr>successful = 2, failed = 1, announced = [v1, v2, v3], b_world = w3\<rparr>)"
  using batch_foldl_counts [of cfg sp fmt q folder "\<lparr>successful = 0, failed = 0, announced = [], b_world = w\<rparr>" vs]
  by (simp add: download_selected_def batch_step_def)

theorem batch_result_witness:
  "successful (download_selected demo_config (failing_on (js ''u2'')) (js ''audio'') (js ''highest'')
      [js ''dl''] [demo_video (js ''1''), demo_video (js ''2''), demo_video (js ''3'')] demo_world) = 2 \<and>
   failed (download_selected demo_config (failing_on (js ''u2'')) (js ''audio'') (js ''highest'')
      [js ''dl''] [demo_video (js ''1''), demo_video (js ''2''), demo_video (js ''3'')] demo_world) = 1 \<and>
   announced (download_selected demo_config (failing_on (js ''u2'')) (js ''audio'') (js ''highest'')
      [js ''dl''] [demo_video (js ''1''), demo_video (js ''2''), demo_video (js ''3'')] demo_world) =
     [demo_video (js ''1''), demo_video (js ''2''), demo_video (js ''3'')]"
proof -
  let ?sp = "failing_on (js ''u2'')"
  let ?d = "\<lambda>n w. downloadVideoWithProgress demo_config ?sp (v_url (demo_video n))
      (entry_options (js ''audio'') (js ''highest'') [js ''dl''] (demo_video n)) w"
  let ?w1 = "snd (?d (js ''1'') demo_world)"
  let ?w2 = "snd (?d (js ''2'') ?w1)"
  let ?w3 = "snd (?d (js ''3'') ?w2)"
  have h: "?d (js ''1'') demo_world = (Resolved [js ''dl''], ?w1) \<and>
      ?d (js ''2'') ?w1 = (Rejected (Error (js ''Download failed with code 1'')), ?w2) \<and>
      ?d (js ''3'') ?w2 = (Resolved [js ''dl''], ?w3)"
    by code_simp
  from batch_result [of demo_config ?sp "js ''audio''" "js ''highest''" "[js ''dl'']"
      "[demo_video (js ''1''), demo_video (js ''2''), demo_video (js ''3'')]" demo_world
      "demo_video (js ''1'')" "[js ''dl'']" ?w1 "demo_video (js ''2'')"
      "Error (js ''Download failed with code 1'')" ?w2 "demo_video (js ''3'')" "[js ''dl'']" ?w3,
      THEN conjunct2, THEN conjunct2, THEN mp, OF h]
  show ?thesis by simp
qed

section \<open>Properties of the selection by range\<close>

lemma select_range_2_4:
  "select_range (js ''2-4'') [1, 2, 3, 4, 5, 6, 7, 8, 9, 10 :: nat] = [2, 3, 4]"
  by (simp add: select_range_def js_def Let_def trim_def is_space_def parseInt_def is_digit_def
      digits_value_def minus_one_def slice_def rel_index_def)

lemma select_range_1_3_50:
  "select_range (js ''1,3,50'') [1, 2, 3, 4, 5, 6, 7, 8, 9, 10 :: nat] = [1, 3]"
  by (simp add: select_range_def js_def Let_def trim_def is_space_def parseInt_def is_digit_def
      digits_value_def minus_one_def item_at_def List.map_filter_simps)

text \<open>With \<open>1 \<le> A\<close> the slice is the inclusive 1-indexed range, \<open>B\<close> clamped to the
  length, and it is empty when \<open>A\<close> is beyond the length; a position of the comma list is
  kept exactly when it is between 1 and the length.\<close>

lemma slice_one_indexed:
  "1 \<le> a \<Longrightarrow> 0 \<le> b \<Longrightarrow>
   slice xs (Num (a - 1)) (Some (Num b)) =
     take (nat (min b (int (length xs))) - nat (a - 1)) (drop (nat (a - 1)) xs)"
  by (auto simp: slice_def rel_index_def Let_def min_def)

lemma slice_start_beyond:
  "int (length xs) < a \<Longrightarrow> slice xs (Num (a - 1)) fin = []"
  by (auto simp: slice_def rel_index_def Let_def split: option.splits number.splits)

lemma item_at_in_range:
  "item_at xs (Num i) = (if 0 \<le> i \<and> i < int (length xs) then Some (xs ! nat i) else None)"
  by (simp add: item_at_def)

text \<open>With \<open>A = 0\<close> the start \<open>A - 1\<close> is -1, which \<^verbatim>\<open>slice\<close> counts from the end.\<close>

lemma slice_zero_start:
  "int (length xs) \<le> b \<Longrightarrow> xs \<noteq> [] \<Longrightarrow> slice xs (Num (0 - 1)) (Some (Num b)) = [last xs]"
proof -
  assume b: "int (length xs) \<le> b" and n: "xs \<noteq> []"
  then have "slice xs (Num (0 - 1)) (Some (Num b)) = take 1 (drop (length xs - 1) xs)"
    by (auto simp: slice_def rel_index_def Let_def max_def nat_diff_distrib)
  also have "\<dots> = [last xs]"
    using n by (induction xs) (auto simp: drop_Cons' )
  finally show ?thesis .
qed

text \<open>
  C4, the failing input. Over ten entries the range \<^verbatim>\<open>0-10\<close> selects the last entry
  alone, where the claim (\<open>A < 1\<close> yields an empty result) expects nothing.
\<close>

theorem select_range_zero_start:
  "select_range (js ''0-10'') [1, 2, 3, 4, 5, 6, 7, 8, 9, 10 :: nat] = [10]"
  by (simp add: select_range_def js_def Let_def trim_def is_space_def parseInt_def is_digit_def
      digits_value_def minus_one_def slice_def rel_index_def)

end
